theory Spec2Isabelle
  imports Main "HOL-Library.AList" "HOL-Library.Code_Target_Numeral"
begin

section \<open>Python values\<close>

text \<open>
  Clotho is written in Python; its configuration records, table cells, keyword arguments
  and tool results are dynamically typed. \<open>pyval\<close> is the part of Python's value universe
  that the modelled code distinguishes: \<open>None\<close>, booleans, integers, strings,
  \<open>pathlib.Path\<close> objects (kept as the text \<open>str\<close> gives for them), tuples, lists and
  dictionaries with string keys (kept in insertion order, as Python keeps them).
\<close>

datatype pyval =
    PNone
  | PBool bool
  | PInt int
  | PStr string
  | PPath string
  | PTuple "pyval list"
  | PList "pyval list"
  | PDict "(string \<times> pyval) list"

type_synonym pydict = "(string \<times> pyval) list"

text \<open>Python's truth test (\<open>if x:\<close>, \<open>not x\<close>, \<open>x or y\<close>).\<close>

fun truthy :: "pyval \<Rightarrow> bool" where
  "truthy PNone = False"
| "truthy (PBool b) = b"
| "truthy (PInt i) = (i \<noteq> 0)"
| "truthy (PStr s) = (s \<noteq> [])"
| "truthy (PPath p) = True"
| "truthy (PTuple xs) = (xs \<noteq> [])"
| "truthy (PList xs) = (xs \<noteq> [])"
| "truthy (PDict kvs) = (kvs \<noteq> [])"

text \<open>\<open>a or b\<close>: the first operand when it is truthy, the second otherwise.\<close>

definition py_or :: "pyval \<Rightarrow> pyval \<Rightarrow> pyval" where
  "py_or a b = (if truthy a then a else b)"

text \<open>\<open>str.lower()\<close> on the ASCII letters.\<close>

definition lower_char :: "char \<Rightarrow> char" where
  "lower_char c =
     (case map_of (zip ''ABCDEFGHIJKLMNOPQRSTUVWXYZ'' ''abcdefghijklmnopqrstuvwxyz'') c of
        Some l \<Rightarrow> l
      | None \<Rightarrow> c)"

definition lower :: "string \<Rightarrow> string" where
  "lower s = map lower_char s"

text \<open>The two quote characters, which cannot be written inside a string literal.\<close>

definition sq :: char where
  "sq = CHR 0x27"

definition dq :: char where
  "dq = CHR 0x22"

text \<open>Decimal digits of a natural number, and \<open>str\<close> of an integer.\<close>

definition digit_char :: "nat \<Rightarrow> char" where
  "digit_char d = ''0123456789'' ! d"

fun str_nat :: "nat \<Rightarrow> string" where
  "str_nat n =
     (if n < 10 then [digit_char n] else str_nat (n div 10) @ [digit_char (n mod 10)])"

declare str_nat.simps [simp del]

definition str_int :: "int \<Rightarrow> string" where
  "str_int i = (if i < 0 then CHR ''-'' # str_nat (nat (- i)) else str_nat (nat i))"

text \<open>\<open>sep.join(parts)\<close>.\<close>

fun join :: "string \<Rightarrow> string list \<Rightarrow> string" where
  "join sep [] = []"
| "join sep [x] = x"
| "join sep (x # y # ys) = x @ sep @ join sep (y # ys)"

text \<open>
  \<open>repr\<close> and \<open>str\<close>. They differ on strings only (\<open>repr\<close> quotes them; the quoting is
  exact for text without quote, backslash or control characters). A path prints as its
  text; a tuple of one element keeps its trailing comma.
\<close>

fun py_repr :: "pyval \<Rightarrow> string" where
  "py_repr PNone = ''None''"
| "py_repr (PBool b) = (if b then ''True'' else ''False'')"
| "py_repr (PInt i) = str_int i"
| "py_repr (PStr s) = sq # s @ [sq]"
| "py_repr (PPath p) = ''PosixPath('' @ sq # p @ sq # '')''"
| "py_repr (PTuple xs) =
     (case xs of [x] \<Rightarrow> ''('' @ py_repr x @ '',)''
      | _ \<Rightarrow> ''('' @ join '', '' (map py_repr xs) @ '')'')"
| "py_repr (PList xs) = ''['' @ join '', '' (map py_repr xs) @ '']''"
| "py_repr (PDict kvs) =
     ''{'' @ join '', '' (map (\<lambda>kv. sq # fst kv @ sq # '': '' @ py_repr (snd kv)) kvs) @ ''}''"

definition py_str :: "pyval \<Rightarrow> string" where
  "py_str v = (case v of PStr s \<Rightarrow> s | PPath p \<Rightarrow> p | _ \<Rightarrow> py_repr v)"

text \<open>
  A dictionary is an association list in insertion order: \<open>d[k] = v\<close> replaces the value
  in place when the key is there and appends the pair otherwise, which is
  \<^const>\<open>AList.update\<close>; \<open>d.get(k)\<close> is \<^const>\<open>map_of\<close>.
\<close>

definition dict_get :: "pydict \<Rightarrow> string \<Rightarrow> pyval" where
  "dict_get d k = (case map_of d k of None \<Rightarrow> PNone | Some v \<Rightarrow> v)"

definition dict_get_default :: "pydict \<Rightarrow> string \<Rightarrow> pyval \<Rightarrow> pyval" where
  "dict_get_default d k dflt = (case map_of d k of None \<Rightarrow> dflt | Some v \<Rightarrow> v)"

section \<open>Errors\<close>

text \<open>
  Every exception the modelled code can raise is a value. \<open>ClothoError\<close> and
  \<open>ClothoToolError\<close> are raised through \<open>logutils.raise_error\<close>, which logs the message
  first; the others are raised by Python or by the persistence library. \<open>Unmodelled\<close> is
  no exception of the program: it is the result at an input for which the model does not
  say what the program does (the text says which), so that a statement about a result or
  about an exception of the program says nothing about such an input.
\<close>

datatype error =
    ClothoError string
  | ClothoToolError string
  | KeyError string
  | AttributeError string
  | TypeError string
  | OperationalError string
  | ValueError string
  | ImportError string
  | RecursionError
  | Unmodelled string

text \<open>
  A computation that may raise is a value of \<open>error + 'a\<close>; \<open>bind_e\<close> runs the next
  statement on the result of the one before, unless that one raised.
\<close>

definition bind_e :: "error + 'a \<Rightarrow> ('a \<Rightarrow> error + 'b) \<Rightarrow> error + 'b" where
  "bind_e m f = (case m of Inl e \<Rightarrow> Inl e | Inr x \<Rightarrow> f x)"

section \<open>The persistence layer (sqlitedb.py, clothodb.py)\<close>

text \<open>
  A table is a list of column names and a list of rows; a row is what \<open>to_dict('records')\<close>
  gives for it, a dictionary from column name to cell. The database is the list of its
  tables by name. The cells hold \<^typ>\<open>pyval\<close>s as they were written: a null cell
  (\<open>NULL\<close>, \<open>NaN\<close>) is \<^const>\<open>PNone\<close>, and a boolean stays the boolean it was, which is
  the number SQLite keeps for it (\<open>True == 1\<close> in Python). The conversions between the
  column types of pandas (an integer read as a float beside a null) are not modelled.
\<close>

type_synonym row = "(string \<times> pyval) list"

record table =
  cols :: "string list"
  rows :: "row list"

type_synonym database = "(string \<times> table) list"

text \<open>
  The \<open>WHERE\<close> clauses the code builds as SQL text: none, \<open>"key" == 'value'\<close>, and
  \<open>0 == 1\<close> (used to read the column names only).
\<close>

datatype query = Equals string pyval | ZeroIsOne

text \<open>
  The \<open>WHERE\<close> clause \<open>"key" == 'value'\<close> (the quotes around the value for a string only),
  as SQLite reads it.

  The value. A string goes between single quotes; anything else is pasted as \<open>str\<close>
  prints it. A string without a single quote is a text literal; an integer of 64 bits is
  a number; \<open>True\<close> and \<open>False\<close> are the numbers 1 and 0 (SQLite 3.23 and later) and
  \<open>None\<close> is no SQL, unless the table has a column of that name. A string with an odd
  number of single quotes leaves a literal open, which is no SQL either, unless a comment
  or another kind of quote hides one of them; so is a text with a NUL character, which
  the driver refuses. \<open>sql_literal\<close> gives the literal, or \<open>None\<close> for a text that is no
  SQL. Every other value (a string with an even number of quotes, a path, a sequence,
  a dictionary, a longer integer) makes a statement whose meaning depends on the rest of
  the grammar of SQL, and the model does not say what the program does with it.
\<close>

datatype literal = TextLit string | IntLit int

definition int64 :: "int \<Rightarrow> bool" where
  "int64 i = (- (2 ^ 63) \<le> i \<and> i < 2 ^ 63)"

definition opens_comment :: "string \<Rightarrow> bool" where
  "opens_comment s =
     list_ex (\<lambda>(a, b). (a = CHR ''-'' \<and> b = CHR ''-'') \<or> (a = CHR ''/'' \<and> b = CHR ''*'')) (zip s (tl s))"

definition other_quote :: "string \<Rightarrow> bool" where
  "other_quote s = list_ex (\<lambda>c. c = dq \<or> c = CHR ''['' \<or> c = CHR 0x60) s"

definition sql_literal :: "string list \<Rightarrow> pyval \<Rightarrow> error + literal option" where
  "sql_literal columns v =
     (case v of
        PStr s \<Rightarrow>
          if CHR 0x00 \<in> set s then Inr None
          else if sq \<notin> set s then Inr (Some (TextLit s))
          else if odd (length (filter (\<lambda>c. c = sq) s)) \<and> \<not> opens_comment s \<and> \<not> other_quote s
          then Inr None
          else Inl (Unmodelled ''a string with single quotes as SQL'')
      | PInt i \<Rightarrow>
          if int64 i then Inr (Some (IntLit i)) else Inl (Unmodelled ''an integer of more than 64 bits as SQL'')
      | PBool b \<Rightarrow>
          if list_ex (\<lambda>c. lower c = ''true'' \<or> lower c = ''false'') columns
          then Inl (Unmodelled ''a column named as a boolean'')
          else Inr (Some (IntLit (if b then 1 else 0)))
      | PNone \<Rightarrow>
          if list_ex (\<lambda>c. lower c = ''none'') columns
          then Inl (Unmodelled ''a column named None'')
          else Inr None
      | _ \<Rightarrow> Inl (Unmodelled ''the text of a path, a sequence or a dictionary as SQL''))"

text \<open>
  The key. The names of columns are compared without regard to the case of the ASCII
  letters. A key between double quotes that names no column is a text literal, as
  SQLite is built by default; the names of the row identifier are left out, and so is a
  key with a double quote in it. \<open>sql_column\<close> gives the column, or \<open>None\<close> for a key that
  is read as a literal.
\<close>

definition sql_column :: "string list \<Rightarrow> string \<Rightarrow> error + string option" where
  "sql_column columns key =
     (if dq \<in> set key then Inl (Unmodelled ''a key with a double quote as SQL'')
      else
        (case filter (\<lambda>c. lower c = lower key) columns of
           [c] \<Rightarrow> Inr (Some c)
         | [] \<Rightarrow>
             if lower key \<in> set [''rowid'', ''oid'', ''_rowid_'']
             then Inl (Unmodelled ''the row identifier of SQLite'')
             else Inr None
         | c # others \<Rightarrow> Inl (Unmodelled ''columns with one name up to case'')))"

text \<open>
  The comparison. A table is as pandas wrote it: a column whose cells are strings is a
  \<open>TEXT\<close> column, and a number compared with it is compared as the text SQLite prints for
  it; a column whose cells are numbers is a numeric column, and a text compared with it
  is compared as the number it is, when it is one. The integers between an optional
  minus sign and digits only are taken as numbers here; a text without any digit is no
  number; what SQLite makes of another text with digits (a sign, spaces, a fraction, an
  exponent) is not modelled. A null cell is equal to nothing. A column that holds both
  strings and numbers, or a cell that SQLite cannot hold, is not modelled.
\<close>

definition is_digit :: "char \<Rightarrow> bool" where
  "is_digit c = (c \<in> set ''0123456789'')"

definition nat_of_digits :: "string \<Rightarrow> nat" where
  "nat_of_digits s =
     fold (\<lambda>c n. 10 * n + (case map_of (zip ''0123456789'' [0, 1, 2, 3, 4, 5, 6, 7, 8, 9]) c of
                               Some k \<Rightarrow> k | None \<Rightarrow> 0)) s 0"

definition number_of_text :: "string \<Rightarrow> error + int option" where
  "number_of_text s =
     (if \<not> list_ex is_digit s then Inr None
      else
        (let negative = (take 1 s = ''-'');
             ds = (if negative then drop 1 s else s);
             i = (if negative then - int (nat_of_digits ds) else int (nat_of_digits ds))
         in if ds \<noteq> [] \<and> list_all is_digit ds \<and> int64 i then Inr (Some i)
            else Inl (Unmodelled ''the number SQLite reads in a text'')))"

definition number_of_cell :: "pyval \<Rightarrow> int option" where
  "number_of_cell v =
     (case v of
        PInt i \<Rightarrow> if int64 i then Some i else None
      | PBool b \<Rightarrow> Some (if b then 1 else 0)
      | _ \<Rightarrow> None)"

definition text_of_cell :: "pyval \<Rightarrow> string option" where
  "text_of_cell v = (case v of PStr s \<Rightarrow> Some s | _ \<Rightarrow> None)"

definition column_cells :: "table \<Rightarrow> string \<Rightarrow> pyval list" where
  "column_cells df c = filter (\<lambda>v. v \<noteq> PNone) (map (\<lambda>r. dict_get r c) (rows df))"

definition sql_equals :: "table \<Rightarrow> string \<Rightarrow> literal \<Rightarrow> error + (row \<Rightarrow> bool)" where
  "sql_equals df c lit =
     (let cells = column_cells df c in
      if list_all (\<lambda>v. text_of_cell v \<noteq> None) cells then
        Inr (\<lambda>r. dict_get r c = PStr (case lit of TextLit s \<Rightarrow> s | IntLit i \<Rightarrow> str_int i))
      else if list_all (\<lambda>v. number_of_cell v \<noteq> None) cells then
        (case lit of
           IntLit i \<Rightarrow> Inr (\<lambda>r. number_of_cell (dict_get r c) = Some i)
         | TextLit s \<Rightarrow>
             bind_e (number_of_text s) (\<lambda>n.
             case n of
               None \<Rightarrow> Inr (\<lambda>r. False)
             | Some i \<Rightarrow> Inr (\<lambda>r. number_of_cell (dict_get r c) = Some i)))
      else Inl (Unmodelled ''a column of strings and numbers''))"

definition sql_where :: "table \<Rightarrow> string \<Rightarrow> pyval \<Rightarrow> error + table option" where
  "sql_where df key v =
     (if CHR 0x00 \<in> set key then Inr None
      else
        bind_e (sql_literal (cols df) v) (\<lambda>lit.
        case lit of
          None \<Rightarrow> Inr None
        | Some lit \<Rightarrow>
            bind_e (sql_column (cols df) key) (\<lambda>c.
            case c of
              None \<Rightarrow> Inr (Some (if lit = TextLit key then df else df\<lparr>rows := []\<rparr>))
            | Some c \<Rightarrow>
                bind_e (sql_equals df c lit) (\<lambda>same.
                Inr (Some (df\<lparr>rows := filter same (rows df)\<rparr>))))))"

text \<open>
  \<open>SQLiteDB.get\<close>: the table, filtered; \<open>None\<close> when reading fails (the exception is
  caught there), which is the case for a table that does not exist and for a statement
  that is no SQL.
\<close>

definition SQLiteDB_get :: "database \<Rightarrow> string \<Rightarrow> query option \<Rightarrow> error + table option" where
  "SQLiteDB_get d table_name q =
     (case map_of d table_name of
        None \<Rightarrow> Inr None
      | Some df \<Rightarrow>
          (case q of
             None \<Rightarrow> Inr (Some df)
           | Some ZeroIsOne \<Rightarrow> Inr (Some (df\<lparr>rows := []\<rparr>))
           | Some (Equals key v) \<Rightarrow> sql_where df key v))"

text \<open>\<open>ClothoDB.get\<close> replaces \<open>NaN\<close> by \<open>None\<close>, which are one value here.\<close>

definition ClothoDB_get :: "database \<Rightarrow> string \<Rightarrow> query option \<Rightarrow> error + table option" where
  "ClothoDB_get d table_name q = SQLiteDB_get d table_name q"

text \<open>\<open>get_columns\<close>: \<open>df.columns\<close> of the empty selection; \<open>None.columns\<close> raises.\<close>

definition get_columns :: "database \<Rightarrow> string \<Rightarrow> error + string list" where
  "get_columns d table_name =
     bind_e (SQLiteDB_get d table_name (Some ZeroIsOne)) (\<lambda>got.
     case got of
       None \<Rightarrow> Inl (AttributeError ''columns'')
     | Some df \<Rightarrow> Inr (cols df))"

text \<open>The SQL text of a query, as it appears in the error message of \<open>get_row\<close>.\<close>

definition query_text :: "string \<Rightarrow> pyval \<Rightarrow> string" where
  "query_text key v =
     (case v of
        PStr s \<Rightarrow> '' '' @ dq # key @ dq # '' == '' @ sq # s @ sq # '' ''
      | _ \<Rightarrow> '' '' @ dq # key @ dq # '' == '' @ py_str v @ '' '')"

text \<open>
  \<open>ClothoDB.get_row\<close>: the one row the query selects; \<open>None\<close> when there is none, and
  when the read failed; an error when there are several.
\<close>

definition get_row :: "database \<Rightarrow> string \<Rightarrow> string \<Rightarrow> pyval \<Rightarrow> error + row option" where
  "get_row d table_name key v =
     bind_e (SQLiteDB_get d table_name (Some (Equals key v))) (\<lambda>got.
     case got of
       None \<Rightarrow> Inr None
     | Some df \<Rightarrow>
         (let rs = rows df in
          if length rs > 1 then
            Inl (ClothoError (''Multiple rows in '' @ table_name @ '' for '' @ query_text key v @ ''.''))
          else if length rs = 1 then Inr (Some (rs ! 0))
          else Inr None))"

text \<open>
  \<open>ClothoDB.get_row_insensitive\<close>: the whole table is read and filtered by
  \<open>df[key].str.lower() == str(value).lower()\<close>. \<open>df[key]\<close> raises \<open>KeyError\<close> for a key
  that is no column. \<open>.str\<close> raises \<open>AttributeError\<close> on a column of numbers, which is
  what pandas reads when the cells that are not null are all numbers (and there is one);
  on any other column \<open>.str.lower()\<close> is null on a cell that is no string, and a null is
  equal to nothing.
\<close>

definition str_accessor_fails :: "table \<Rightarrow> string \<Rightarrow> bool" where
  "str_accessor_fails df key =
     (let cells = column_cells df key in
      cells \<noteq> [] \<and>
      list_all (\<lambda>v. case v of PInt i \<Rightarrow> True | PBool b \<Rightarrow> True | _ \<Rightarrow> False) cells)"

definition matches_insensitive :: "string \<Rightarrow> pyval \<Rightarrow> row \<Rightarrow> bool" where
  "matches_insensitive key v r =
     (case map_of r key of Some (PStr s) \<Rightarrow> lower s = lower (py_str v) | _ \<Rightarrow> False)"

definition get_row_insensitive :: "database \<Rightarrow> string \<Rightarrow> string \<Rightarrow> pyval \<Rightarrow> error + row option" where
  "get_row_insensitive d table_name key v =
     bind_e (SQLiteDB_get d table_name None) (\<lambda>got.
     case got of
       None \<Rightarrow> Inr None
     | Some df \<Rightarrow>
         if key \<notin> set (cols df) then Inl (KeyError key)
         else if str_accessor_fails df key
         then Inl (AttributeError ''Can only use .str accessor with string values!'')
         else
           (let rs = filter (matches_insensitive key v) (rows df) in
            if length rs > 1 then
              Inl (ClothoError (''Multiple rows in '' @ table_name @ '' for '' @ key @ '' == ''
                                @ py_str v @ ''.''))
            else if length rs = 1 then Inr (Some (rs ! 0))
            else Inr None))"

text \<open>The rows of a table by name; none for a table that does not exist.\<close>

definition table_rows :: "database \<Rightarrow> string \<Rightarrow> row list" where
  "table_rows d table_name = (case map_of d table_name of None \<Rightarrow> [] | Some df \<Rightarrow> rows df)"

definition table_cols :: "database \<Rightarrow> string \<Rightarrow> string list" where
  "table_cols d table_name = (case map_of d table_name of None \<Rightarrow> [] | Some df \<Rightarrow> cols df)"

section \<open>The configuration resolver (utils.py)\<close>

text \<open>\<open>get_case_insensitive\<close>: the value of the first key equal to \<open>key\<close> up to case.\<close>

fun get_case_insensitive :: "pydict \<Rightarrow> string \<Rightarrow> pyval \<Rightarrow> pyval" where
  "get_case_insensitive [] key default_value = default_value"
| "get_case_insensitive ((k, val) # dictionary) key default_value =
     (if lower k = lower key then val
      else get_case_insensitive dictionary key default_value)"

text \<open>The loop body of \<open>fill_config\<close>: a \<open>pathlib.Path\<close> becomes its text.\<close>

definition path_to_str :: "pyval \<Rightarrow> pyval" where
  "path_to_str val = (case val of PPath p \<Rightarrow> PStr p | _ \<Rightarrow> val)"

text \<open>
  \<open>fill_config\<close>. \<open>config\<close> is \<open>None\<close> or a dictionary, \<open>ident\<close> the \<open>id\<close> argument
  (\<^const>\<open>PNone\<close> when not given), \<open>name_column\<close> the optional fallback column. The
  blank row is \<open>dict(zip(columns, [None] * len(columns)))\<close>.
\<close>

definition blank_row :: "string list \<Rightarrow> row" where
  "blank_row columns =
     fold (\<lambda>(k, v) r. AList.update k v r) (zip columns (replicate (length columns) PNone)) []"

definition config_or_empty :: "pydict option \<Rightarrow> pydict" where
  "config_or_empty config = (case config of None \<Rightarrow> [] | Some c \<Rightarrow> c)"

definition fill_config ::
  "database \<Rightarrow> string \<Rightarrow> string \<Rightarrow> pydict option \<Rightarrow> pyval \<Rightarrow> string option \<Rightarrow> error + row" where
  "fill_config d table_name id_column config ident name_column =
     (let config = config_or_empty config;
          ident = get_case_insensitive config id_column ident
      in
      bind_e (if ident = PNone then Inr None
              else get_row_insensitive d table_name id_column ident) (\<lambda>row.
      bind_e (case name_column of
                None \<Rightarrow> Inr row
              | Some nc \<Rightarrow>
                  if row = None \<and> nc \<noteq> [] then
                    (let name = get_case_insensitive config nc PNone in
                     if truthy name then get_row_insensitive d table_name nc name
                     else Inr row)
                  else Inr row) (\<lambda>row.
      bind_e (case row of
                None \<Rightarrow> bind_e (get_columns d table_name) (\<lambda>columns. Inr (blank_row columns))
              | Some r \<Rightarrow> Inr r) (\<lambda>row.
      Inr (map (\<lambda>(key, db_val).
                  (key, path_to_str (get_case_insensitive config key db_val))) row)))))"

text \<open>
  \<open>ClothoDB.set_row\<close>. The old table loses the rows whose identifier is the new row's
  (\<open>df[df[id_col] != row[id_col]]\<close>; a null is unequal to everything in pandas), the new
  row is laid out on the table's template when the schema has one, and the two are
  concatenated and written back in place of the table. \<open>templates\<close> stands for
  \<open>get_schema_templates()\<close>, the column names of \<open>ClothoSchema.yaml\<close> by table. The
  conversions to the template's column types are not modelled, and neither is the
  writing of a row with a cell that SQLite cannot hold.
\<close>

definition pd_ne :: "pyval \<Rightarrow> pyval \<Rightarrow> bool" where
  "pd_ne a b = (a = PNone \<or> b = PNone \<or> a \<noteq> b)"

definition pad_row :: "string list \<Rightarrow> row \<Rightarrow> row" where
  "pad_row columns r = map (\<lambda>c. (c, dict_get r c)) columns"

text \<open>\<open>pd.concat([df, new_row], ignore_index=True)\<close>: the union of the columns, in order.\<close>

definition concat_frames :: "table \<Rightarrow> table \<Rightarrow> table" where
  "concat_frames df new_row =
     (let columns = cols df @ filter (\<lambda>c. c \<notin> set (cols df)) (cols new_row) in
      \<lparr>cols = columns, rows = map (pad_row columns) (rows df @ rows new_row)\<rparr>)"

text \<open>\<open>import_df(df, table_name, True)\<close>: the table is replaced.\<close>

definition import_df :: "table \<Rightarrow> string \<Rightarrow> database \<Rightarrow> database" where
  "import_df df table_name d = AList.update table_name df d"

text \<open>What SQLite holds and pandas writes: null, a boolean, an integer of 64 bits, a string.\<close>

definition storable :: "pyval \<Rightarrow> bool" where
  "storable v =
     (case v of PNone \<Rightarrow> True | PBool b \<Rightarrow> True | PInt i \<Rightarrow> int64 i | PStr s \<Rightarrow> True | _ \<Rightarrow> False)"

definition set_row ::
  "(string \<times> string list) list \<Rightarrow> database \<Rightarrow> string \<Rightarrow> row \<Rightarrow> string \<Rightarrow> error + database" where
  "set_row templates d table_name row id_col =
     bind_e (SQLiteDB_get d table_name None) (\<lambda>got.
     bind_e (case got of
               None \<Rightarrow> Inr \<lparr>cols = [], rows = []\<rparr>
             | Some df \<Rightarrow>
                 if id_col \<notin> set (cols df) then Inl (KeyError id_col)
                 else
                   (case map_of row id_col of
                      None \<Rightarrow> Inl (KeyError id_col)
                    | Some idv \<Rightarrow>
                        Inr (df\<lparr>rows := filter (\<lambda>r. pd_ne (dict_get r id_col) idv) (rows df)\<rparr>))) (\<lambda>df.
     bind_e (if list_all (\<lambda>(k, v). storable v) row then Inr ()
             else Inl (Unmodelled ''a cell that SQLite cannot hold'')) (\<lambda>u.
     bind_e (case map_of templates table_name of
               Some template \<Rightarrow>
                 if set template \<subseteq> set (cols df) then
                   (let columns = template @ filter (\<lambda>k. k \<notin> set template) (remdups (map fst row)) in
                    Inr (\<lparr>cols = columns, rows = [pad_row columns row]\<rparr>, df))
                 else Inl (KeyError ''Only a column name can be used for the key in a dtype mappings argument.'')
             | None \<Rightarrow>
                 (let columns = remdups (map fst row) in
                  Inr (\<lparr>cols = columns, rows = [pad_row columns row]\<rparr>, df))) (\<lambda>(new_row, df).
     Inr (import_df (concat_frames df new_row) table_name d)))))"

text \<open>
  A value of \<open>UPDATE\<close> is pasted into the SQL text: a string between single quotes,
  anything else as \<open>str\<close> prints it. The text is a literal of SQL for a string without a
  single quote, an integer and a boolean. For every other value (\<open>None\<close>, a string that
  holds a single quote, which ends the literal early) the statement is taken to fail.
\<close>

definition sql_literal_ok :: "pyval \<Rightarrow> bool" where
  "sql_literal_ok v =
     (case v of PStr s \<Rightarrow> sq \<notin> set s | PInt i \<Rightarrow> True | PBool b \<Rightarrow> True | _ \<Rightarrow> False)"

text \<open>
  \<open>SQLiteDB.update\<close>: \<open>UPDATE table SET col = val, ... WHERE query_col == query_val\<close>,
  with the pairs whose value is \<open>None\<close> left out. The statement is executed outside any
  \<open>try\<close>: it raises when the table or a column is missing, and when the text is no SQL
  (no pair is left, or a value is not a literal, see \<^const>\<open>sql_literal_ok\<close>).
\<close>

definition ClothoDB_update ::
  "database \<Rightarrow> string \<Rightarrow> string \<Rightarrow> pyval \<Rightarrow> row \<Rightarrow> error + database" where
  "ClothoDB_update d table_name query_col query_val vals =
     (let pairs = filter (\<lambda>(col, val). val \<noteq> PNone) vals in
      case map_of d table_name of
        None \<Rightarrow> Inl (OperationalError ''no such table'')
      | Some df \<Rightarrow>
          if pairs = [] \<or> \<not> list_all (\<lambda>(col, val). sql_literal_ok val) pairs
             \<or> \<not> sql_literal_ok query_val
          then Inl (OperationalError ''syntax error'')
          else if \<not> set (query_col # map fst pairs) \<subseteq> set (cols df)
          then Inl (OperationalError ''no such column'')
          else
            Inr (AList.update table_name
                   (df\<lparr>rows := map (\<lambda>r. if map_of r query_col = Some query_val
                                       then fold (\<lambda>(col, val) r. AList.update col val r) pairs r
                                       else r) (rows df)\<rparr>) d))"

section \<open>Time (utils.py)\<close>

text \<open>
  An instant is a number of microseconds since the epoch, a duration a number of
  microseconds. \<open>get_time_string\<close> prints an instant with
  \<open>strftime('%Y-%m-%d %H:%M:%S')\<close> and a duration as \<open>str\<close> prints a \<open>timedelta\<close>, cut
  at the decimal point.
\<close>

definition pad2 :: "nat \<Rightarrow> string" where
  "pad2 n = (if n < 10 then CHR ''0'' # str_nat n else str_nat n)"

definition pad4 :: "nat \<Rightarrow> string" where
  "pad4 n = replicate (4 - length (str_nat n)) (CHR ''0'') @ str_nat n"

text \<open>The civil date of a day number (days since 1970-01-01), Gregorian calendar.\<close>

definition civil_from_days :: "nat \<Rightarrow> nat \<times> nat \<times> nat" where
  "civil_from_days days =
     (let z = days + 719468;
          era = z div 146097;
          doe = z mod 146097;
          yoe = (doe + doe div 36524 - doe div 1460 - doe div 146096) div 365;
          doy = doe + yoe div 100 - 365 * yoe - yoe div 4;
          mp = (5 * doy + 2) div 153;
          d = doy + 1 - (153 * mp + 2) div 5;
          m = (if mp < 10 then mp + 3 else mp - 9);
          y = yoe + era * 400 + (if m \<le> 2 then 1 else 0)
      in (y, m, d))"

definition time_string_of_instant :: "nat \<Rightarrow> string" where
  "time_string_of_instant us =
     (let secs = us div 1000000;
          (y, m, d) = civil_from_days (secs div 86400);
          r = secs mod 86400
      in pad4 y @ ''-'' @ pad2 m @ ''-'' @ pad2 d @ '' '' @
         pad2 (r div 3600) @ '':'' @ pad2 (r mod 3600 div 60) @ '':'' @ pad2 (r mod 60))"

definition time_string_of_duration :: "nat \<Rightarrow> string" where
  "time_string_of_duration us =
     (let secs = us div 1000000;
          days = secs div 86400;
          r = secs mod 86400;
          hms = str_nat (r div 3600) @ '':'' @ pad2 (r mod 3600 div 60) @ '':'' @ pad2 (r mod 60)
      in if days = 0 then hms
         else str_nat days @ (if days = 1 then '' day, '' else '' days, '') @ hms)"

section \<open>The world a run acts on\<close>

text \<open>
  The objects of the program that outlive a call, and the parts of its environment that
  it reads: the database; the schema templates; the cache of the one \<open>ResourceShed\<close> of
  a run (resource name to \<open>Resource\<close> object); the messages logged at level \<open>INFO\<close> and
  above by the modelled code, oldest first; the number of identifiers \<open>uuid.uuid1()\<close> has
  handed out; the clock (the time of the last reading, the time that passes before the
  \<open>k\<close>-th reading, the number of readings); the functions that tool paths name; and the
  invocations of such functions so far, oldest first.

  A \<open>Resource\<close> object is its \<open>config\<close>, its \<open>_parent_row\<close> and whether it was given a
  shed.
\<close>

record resource =
  res_config :: row
  res_parent_row :: "row option"
  res_has_shed :: bool

datatype level = INFO | WARNING | ERROR

type_synonym kwargs = "(pyval \<times> pyval) list"

record world =
  db :: database
  templates :: "(string \<times> string list) list"
  shed_resources :: "(pyval \<times> resource) list"
  logged :: "(level \<times> string) list"
  uuids :: nat
  now :: nat
  elapse :: "nat \<Rightarrow> nat"
  reads :: nat
  funcs :: "string \<Rightarrow> (kwargs \<Rightarrow> string + pyval) option"
  calls :: "(string \<times> kwargs) list"

text \<open>
  A statement is a function from the world to a result or an exception, and the world
  after it. An exception leaves the effects that came before it in place.
\<close>

type_synonym 'a act = "world \<Rightarrow> (error + 'a) \<times> world"

definition ret :: "'a \<Rightarrow> 'a act" where
  "ret x s = (Inr x, s)"

definition raise :: "error \<Rightarrow> 'a act" where
  "raise e s = (Inl e, s)"

definition bind :: "'a act \<Rightarrow> ('a \<Rightarrow> 'b act) \<Rightarrow> 'b act" where
  "bind m f s = (case m s of (Inl e, s') \<Rightarrow> (Inl e, s') | (Inr x, s') \<Rightarrow> f x s')"

text \<open>\<open>logging.info\<close>, \<open>logging.warning\<close>, \<open>logging.error\<close>.\<close>

definition logging :: "level \<Rightarrow> string \<Rightarrow> unit act" where
  "logging lvl msg s = (Inr (), s\<lparr>logged := logged s @ [(lvl, msg)]\<rparr>)"

text \<open>\<open>message.split('\n')\<close>.\<close>

fun split_lines :: "string \<Rightarrow> string list" where
  "split_lines [] = [[]]"
| "split_lines (c # cs) =
     (if c = CHR 0x0A then [] # split_lines cs
      else (case split_lines cs of l # ls \<Rightarrow> (c # l) # ls | [] \<Rightarrow> [[c]]))"

text \<open>
  \<open>logutils.raise_error\<close>: the message is logged line by line at level \<open>ERROR\<close>, then the
  exception is raised.
\<close>

definition log_lines :: "string \<Rightarrow> world \<Rightarrow> world" where
  "log_lines msg s = s\<lparr>logged := logged s @ map (\<lambda>chunk. (ERROR, chunk)) (split_lines msg)\<rparr>"

definition raise_error :: "string \<Rightarrow> (string \<Rightarrow> error) \<Rightarrow> 'a act" where
  "raise_error message error_class s = (Inl (error_class message), log_lines message s)"

text \<open>
  The functions of the persistence layer and the resolver read the database only; they
  are run on the database of the world. An error they raise through \<open>raise_error\<close> (the
  two Clotho classes) has logged its message.
\<close>

definition reading :: "(database \<Rightarrow> error + 'a) \<Rightarrow> 'a act" where
  "reading f s =
     (case f (db s) of
        Inl (ClothoError msg) \<Rightarrow> (Inl (ClothoError msg), log_lines msg s)
      | Inl (ClothoToolError msg) \<Rightarrow> (Inl (ClothoToolError msg), log_lines msg s)
      | Inl e \<Rightarrow> (Inl e, s)
      | Inr x \<Rightarrow> (Inr x, s))"

text \<open>A write: \<open>set_row\<close> or \<open>update\<close> on the database of the world.\<close>

definition writing :: "(database \<Rightarrow> error + database) \<Rightarrow> unit act" where
  "writing f s = (case f (db s) of Inl e \<Rightarrow> (Inl e, s) | Inr d \<Rightarrow> (Inr (), s\<lparr>db := d\<rparr>))"

definition set_row_s :: "string \<Rightarrow> row \<Rightarrow> string \<Rightarrow> unit act" where
  "set_row_s table_name row id_col s =
     writing (\<lambda>d. set_row (templates s) d table_name row id_col) s"

text \<open>
  \<open>str(uuid.uuid1())\<close>: a text that depends on the number of identifiers handed out
  before, and differs for different numbers.
\<close>

definition uuid_text :: "nat \<Rightarrow> string" where
  "uuid_text n = ''uuid-'' @ str_nat n"

definition uuid1 :: "pyval act" where
  "uuid1 s = (Inr (PStr (uuid_text (uuids s))), s\<lparr>uuids := Suc (uuids s)\<rparr>)"

text \<open>\<open>utils.get_now()\<close>: time has passed since the last reading.\<close>

definition get_now :: "nat act" where
  "get_now s =
     (let t = now s + elapse s (reads s) in (Inr t, s\<lparr>now := t, reads := Suc (reads s)\<rparr>))"

section \<open>Resources (resource.py, resourceshed.py)\<close>

text \<open>\<open>d[k]\<close>, which raises \<open>KeyError\<close> for a key that is not there.\<close>

definition subscript :: "pydict \<Rightarrow> string \<Rightarrow> pyval act" where
  "subscript d k = (case map_of d k of None \<Rightarrow> raise (KeyError k) | Some v \<Rightarrow> ret v)"

text \<open>The truth test of a row or \<open>None\<close>: a dictionary is true when it is not empty.\<close>

definition row_truthy :: "row option \<Rightarrow> bool" where
  "row_truthy r = (case r of None \<Rightarrow> False | Some kvs \<Rightarrow> kvs \<noteq> [])"

text \<open>
  \<open>Resource.init_parent\<close>: the parent is looked up by identifier, then by name; when it
  is found, \<open>Parent\<close> becomes its identifier; when it is not, a warning is logged and the
  resource has no parent row.
\<close>

definition Resource_init_parent :: "resource \<Rightarrow> resource act" where
  "Resource_init_parent r =
     (let parent_val = dict_get (res_config r) ''Parent'' in
      if \<not> truthy parent_val then ret r
      else
        bind (reading (\<lambda>d. get_row d ''Resources'' ''ResourceID'' parent_val)) (\<lambda>row1.
        bind (if row_truthy row1 then ret row1
              else reading (\<lambda>d. get_row_insensitive d ''Resources'' ''Name'' parent_val)) (\<lambda>row2.
        case row2 of
          None \<Rightarrow>
            bind (logging WARNING (''Parent resource '' @ dq # py_str parent_val @ dq # '' not found.''))
              (\<lambda>u. ret (r\<lparr>res_parent_row := None\<rparr>))
        | Some parent_row \<Rightarrow>
            if parent_row = [] then
              bind (logging WARNING (''Parent resource '' @ dq # py_str parent_val @ dq # '' not found.''))
                (\<lambda>u. ret (r\<lparr>res_parent_row := Some parent_row\<rparr>))
            else
              bind (subscript parent_row ''ResourceID'') (\<lambda>parent_id.
              ret (r\<lparr>res_parent_row := Some parent_row,
                     res_config := AList.update ''Parent'' parent_id (res_config r)\<rparr>)))))"

text \<open>
  \<open>Resource.configure\<close>: the configuration is resolved by identifier; when that gives no
  identifier, it is resolved again with \<open>Name\<close> as the identifying column.
\<close>

definition Resource_configure :: "resource \<Rightarrow> pydict option \<Rightarrow> pyval \<Rightarrow> resource act" where
  "Resource_configure r config ident =
     bind (reading (\<lambda>d. fill_config d ''Resources'' ''ResourceID'' config ident None)) (\<lambda>filled_config.
     if truthy (dict_get filled_config ''ResourceID'')
     then Resource_init_parent (r\<lparr>res_config := filled_config\<rparr>)
     else
       bind (reading (\<lambda>d. fill_config d ''Resources'' ''Name'' config PNone None)) (\<lambda>filled_by_name.
       Resource_init_parent (r\<lparr>res_config := filled_by_name\<rparr>)))"

text \<open>\<open>Resource(db, config, id, resource_shed)\<close>.\<close>

definition Resource_init :: "pydict option \<Rightarrow> pyval \<Rightarrow> bool \<Rightarrow> resource act" where
  "Resource_init config ident resource_shed =
     Resource_configure \<lparr>res_config = [], res_parent_row = None, res_has_shed = resource_shed\<rparr>
       config ident"

text \<open>\<open>Resource.commit\<close>: an identifier is made when there is none; the row is written.\<close>

definition Resource_commit :: "resource \<Rightarrow> resource act" where
  "Resource_commit r =
     bind (if \<not> truthy (dict_get (res_config r) ''ResourceID'')
           then bind uuid1 (\<lambda>u. ret (r\<lparr>res_config := AList.update ''ResourceID'' u (res_config r)\<rparr>))
           else ret r) (\<lambda>r.
     bind (set_row_s ''Resources'' (res_config r) ''ResourceID'') (\<lambda>u. ret r))"

text \<open>The setter of \<open>Resource.path\<close>.\<close>

definition Resource_set_path :: "resource \<Rightarrow> pyval \<Rightarrow> resource" where
  "Resource_set_path r new_path = r\<lparr>res_config := AList.update ''Path'' new_path (res_config r)\<rparr>"

text \<open>A dictionary key must be hashable: lists and dictionaries are not.\<close>

fun hashable :: "pyval \<Rightarrow> bool" where
  "hashable (PList xs) = False"
| "hashable (PDict kvs) = False"
| "hashable (PTuple xs) = list_all hashable xs"
| "hashable v = True"

text \<open>
  \<open>ResourceShed.get\<close>: the cached object, or a new one configured by name only and
  cached. The object returned is the one the cache holds: the cache is where its state
  lives, and a holder of the name reads and writes it there.
\<close>

definition ResourceShed_get :: "pyval \<Rightarrow> resource act" where
  "ResourceShed_get name s =
     (if \<not> hashable name then raise (TypeError ''unhashable type'') s
      else
        (case map_of (shed_resources s) name of
           Some resource \<Rightarrow> (Inr resource, s)
         | None \<Rightarrow>
             bind (Resource_init (Some [(''Name'', name)]) PNone True) (\<lambda>resource s'.
               (Inr resource, s'\<lparr>shed_resources := AList.update name resource (shed_resources s')\<rparr>)) s))"

text \<open>\<open>parent.path + '/' + str(path)\<close>: \<open>+\<close> with a string needs a string on its left.\<close>

definition join_path :: "pyval \<Rightarrow> pyval \<Rightarrow> pyval act" where
  "join_path parent_path path =
     (case parent_path of
        PStr s \<Rightarrow> ret (PStr (s @ ''/'' @ py_str path))
      | _ \<Rightarrow> raise (TypeError ''unsupported operand type(s) for +''))"

text \<open>
  The getter of \<open>Resource.path\<close>. It calls itself on the parent, and nothing checks that
  the chain of parents ends; the first argument bounds the depth of the calls, as the
  interpreter's recursion limit does, and the call that exceeds it raises
  \<open>RecursionError\<close>. \<open>parent.path\<close> is evaluated twice, as in the source.
\<close>

fun Resource_path :: "nat \<Rightarrow> resource \<Rightarrow> pyval act" where
  "Resource_path 0 r = raise RecursionError"
| "Resource_path (Suc n) r =
     (let path = dict_get (res_config r) ''Path'' in
      case res_parent_row r of
        None \<Rightarrow> ret path
      | Some parent_row \<Rightarrow>
          if parent_row = [] then ret path
          else
            bind (if res_has_shed r
                  then bind (subscript parent_row ''Name'') ResourceShed_get
                  else bind (subscript parent_row ''ResourceID'')
                         (\<lambda>parent_id. Resource_init None parent_id False)) (\<lambda>parent.
            bind (Resource_path n parent) (\<lambda>parent_path.
            if parent_path = PNone \<or> path = PNone then ret PNone
            else bind (Resource_path n parent) (\<lambda>parent_path. join_path parent_path path))))"

section \<open>Tool parameters (toolparam.py)\<close>

text \<open>
  A \<open>ToolParam\<close> object is its \<open>config\<close>, its \<open>name\<close> (taken out of the configuration)
  and whether it was given a shed.
\<close>

record toolparam =
  param_config :: row
  param_name :: pyval
  param_has_shed :: bool

text \<open>\<open>ToolParam.is_input\<close>, \<open>feeder_tool_name\<close>, \<open>feeder_param_name\<close>, \<open>id\<close>.\<close>

definition is_input :: "toolparam \<Rightarrow> pyval" where
  "is_input p = dict_get (param_config p) ''IsInput''"

definition feeder_tool_name :: "toolparam \<Rightarrow> pyval" where
  "feeder_tool_name p = dict_get (param_config p) ''FeederToolName''"

definition feeder_param_name :: "toolparam \<Rightarrow> pyval" where
  "feeder_param_name p = dict_get (param_config p) ''FeederParamName''"

definition ToolParam_id :: "toolparam \<Rightarrow> pyval" where
  "ToolParam_id p = dict_get (param_config p) ''ParamID''"

text \<open>Elementwise \<open>==\<close> of pandas: a null is equal to nothing.\<close>

definition pd_eq :: "pyval \<Rightarrow> pyval \<Rightarrow> bool" where
  "pd_eq a b = (a \<noteq> PNone \<and> b \<noteq> PNone \<and> a = b)"

text \<open>\<open>Series.str.lower() == text\<close> on one cell.\<close>

definition str_lower_eq :: "pyval \<Rightarrow> string \<Rightarrow> bool" where
  "str_lower_eq cell text = (case cell of PStr s \<Rightarrow> lower s = text | _ \<Rightarrow> False)"

text \<open>
  The second lookup of \<open>ToolParam.configure\<close>, by tool identifier and parameter name:
  the first row of \<open>ToolParams\<close> with that name (up to case) and that tool overrides the
  configuration, field by field, unless the caller's configuration defines the field.
\<close>

definition find_by_tool_and_name :: "row \<Rightarrow> pydict option \<Rightarrow> pyval \<Rightarrow> row act" where
  "find_by_tool_and_name cfg config tool_id s =
     (case ClothoDB_get (db s) ''ToolParams'' None of
        Inl e \<Rightarrow> raise e s
      | Inr None \<Rightarrow> raise (TypeError ''NoneType object is not subscriptable'') s
      | Inr (Some big_df) \<Rightarrow>
          if ''Name'' \<notin> set (cols big_df) then raise (KeyError ''Name'') s
          else
            bind (subscript cfg ''Name'') (\<lambda>name.
            case name of
              PStr nm \<Rightarrow>
                (let name_df = filter (\<lambda>r. str_lower_eq (dict_get r ''Name'') (lower nm)) (rows big_df) in
                 if ''ToolID'' \<notin> set (cols big_df) then raise (AttributeError ''ToolID'')
                 else
                   (case filter (\<lambda>r. pd_eq (dict_get r ''ToolID'') tool_id) name_df of
                      [] \<Rightarrow> ret cfg
                    | row # others \<Rightarrow>
                        if row = [] then ret cfg
                        else
                          (case config of
                             None \<Rightarrow> raise (AttributeError ''items'')
                           | Some c \<Rightarrow>
                               ret (fold (\<lambda>(key, db_val) cfg.
                                            AList.update key (get_case_insensitive c key db_val) cfg)
                                          row cfg))))
            | _ \<Rightarrow> raise (AttributeError ''lower'')) s)"

text \<open>\<open>d.pop(k)\<close>.\<close>

definition dict_pop :: "pydict \<Rightarrow> string \<Rightarrow> (pyval \<times> pydict) act" where
  "dict_pop d k =
     (case map_of d k of
        None \<Rightarrow> raise (KeyError k)
      | Some v \<Rightarrow> ret (v, filter (\<lambda>kv. fst kv \<noteq> k) d))"

definition ToolParam_configure :: "toolparam \<Rightarrow> pydict option \<Rightarrow> pyval \<Rightarrow> toolparam act" where
  "ToolParam_configure p config ident =
     bind (reading (\<lambda>d. fill_config d ''ToolParams'' ''ParamID'' config ident None)) (\<lambda>cfg.
     bind (subscript cfg ''ParamID'') (\<lambda>param_id.
     bind (if truthy param_id then ret cfg
           else
             bind (subscript cfg ''ToolID'') (\<lambda>tool_id.
             if truthy tool_id then find_by_tool_and_name cfg config tool_id else ret cfg)) (\<lambda>cfg.
     bind (dict_pop cfg ''Name'') (\<lambda>(name, cfg).
     ret (p\<lparr>param_config :=
                (if dict_get cfg ''IsInput'' = PNone then AList.update ''IsInput'' (PBool True) cfg
                 else cfg),
            param_name := name\<rparr>)))))"

text \<open>\<open>ToolParam(db, config, id, resource_shed)\<close>.\<close>

definition ToolParam_init :: "pydict option \<Rightarrow> pyval \<Rightarrow> bool \<Rightarrow> toolparam act" where
  "ToolParam_init config ident resource_shed =
     ToolParam_configure \<lparr>param_config = [], param_name = PNone, param_has_shed = resource_shed\<rparr>
       config ident"

text \<open>
  \<open>ToolParam.commit\<close>: the owner is recorded, an identifier is made when there is none,
  and the row (the configuration with the name put back) is written.
\<close>

definition ToolParam_commit :: "toolparam \<Rightarrow> pyval \<Rightarrow> toolparam act" where
  "ToolParam_commit p tool_id =
     (let cfg = AList.update ''ToolID'' tool_id (param_config p) in
      bind (if \<not> truthy (dict_get cfg ''ParamID'')
            then bind uuid1 (\<lambda>u. ret (AList.update ''ParamID'' u cfg))
            else ret cfg) (\<lambda>cfg.
      bind (set_row_s ''ToolParams'' (AList.update ''Name'' (param_name p) cfg) ''ParamID'') (\<lambda>u.
      ret (p\<lparr>param_config := cfg\<rparr>))))"

text \<open>
  \<open>ToolParam.get_resource\<close>: for a parameter flagged as a resource, the resource its
  \<open>Value\<close> names, from the shed when there is one, built on the spot otherwise.
\<close>

definition get_resource :: "toolparam \<Rightarrow> resource option act" where
  "get_resource p =
     (if \<not> truthy (dict_get (param_config p) ''IsResource'') then ret None
      else if param_has_shed p
      then bind (ResourceShed_get (dict_get (param_config p) ''Value'')) (\<lambda>r. ret (Some r))
      else bind (Resource_init (Some [(''Name'', dict_get (param_config p) ''Value'')]) PNone False)
             (\<lambda>r. ret (Some r)))"

text \<open>The getter of \<open>ToolParam.value\<close>; its first argument bounds the depth of \<open>path\<close>.\<close>

definition value_get :: "nat \<Rightarrow> toolparam \<Rightarrow> pyval act" where
  "value_get n p =
     bind (get_resource p) (\<lambda>resource.
     case resource of
       Some r \<Rightarrow> Resource_path n r
     | None \<Rightarrow> ret (dict_get (param_config p) ''Value''))"

text \<open>
  The setter of \<open>ToolParam.value\<close>. The path of a resource of the shed is set on the
  cached object; without a shed the resource was built for this call and is dropped
  after it.
\<close>

definition value_set :: "toolparam \<Rightarrow> pyval \<Rightarrow> toolparam act" where
  "value_set p val =
     bind (get_resource p) (\<lambda>resource.
     case resource of
       Some r \<Rightarrow>
         (\<lambda>s. (Inr p,
                if param_has_shed p
                then s\<lparr>shed_resources :=
                         AList.update (dict_get (param_config p) ''Value'') (Resource_set_path r val)
                           (shed_resources s)\<rparr>
                else s))
     | None \<Rightarrow> ret (p\<lparr>param_config := AList.update ''Value'' val (param_config p)\<rparr>))"

text \<open>
  \<open>ToolParam.record_io\<close>: one row of \<open>ActivityIO\<close> for a value seen during an activity;
  the parameter is committed first when it has no identifier.
\<close>

definition record_io :: "toolparam \<Rightarrow> pyval \<Rightarrow> pyval \<Rightarrow> pyval \<Rightarrow> toolparam act" where
  "record_io p activity_id val tool_id =
     (let tool_id = py_or tool_id (dict_get (param_config p) ''ToolID'') in
      if tool_id = PNone
      then raise_error (''No tool ID set for param '' @ py_str (param_name p) @ ''.'') ClothoError
      else
        bind (if \<not> truthy (ToolParam_id p) then ToolParam_commit p tool_id else ret p) (\<lambda>p.
        bind uuid1 (\<lambda>io_id.
        bind (set_row_s ''ActivityIO''
                [(''IOID'', io_id),
                 (''ActivityID'', activity_id),
                 (''ParamID'', ToolParam_id p),
                 (''ParamName'', param_name p),
                 (''Value'', val),
                 (''IsResource'', dict_get_default (param_config p) ''IsResource'' (PBool False)),
                 (''IsInput'', is_input p),
                 (''IsRead'', dict_get (param_config p) ''IsRead''),
                 (''IsWrite'', dict_get (param_config p) ''IsWrite'')]
                ''IOID'') (\<lambda>u.
        ret p))))"

section \<open>Tools (tool.py)\<close>

text \<open>
  A \<open>Tool\<close> object: its \<open>_config\<close>, its parameters by name (a dictionary, in insertion
  order), its predecessors (the rows \<open>(Name, ToolID)\<close> of a data frame), the names of its
  outputs, the start time of its current activity, and whether it was given a shed.
\<close>

record tool =
  tool_config :: row
  params :: "(pyval \<times> toolparam) list"
  predecessors :: "(pyval \<times> pyval) list"
  outputs :: "pyval list"
  start_time :: "nat option"
  tool_has_shed :: bool

definition Tool_id :: "tool \<Rightarrow> pyval" where
  "Tool_id t = dict_get (tool_config t) ''ToolID''"

definition Tool_name :: "tool \<Rightarrow> pyval" where
  "Tool_name t = dict_get (tool_config t) ''Name''"

definition Tool_path :: "tool \<Rightarrow> pyval" where
  "Tool_path t = dict_get (tool_config t) ''Path''"

text \<open>The query \<open>"ToolID" == '{}'\<close>, formatted with the tool's identifier.\<close>

definition tool_query :: "tool \<Rightarrow> query option" where
  "tool_query t = Some (Equals ''ToolID'' (PStr (py_str (Tool_id t))))"

text \<open>
  \<open>df.Column\<close> on the result of \<open>get\<close>: it raises \<open>AttributeError\<close> when the read failed
  (\<open>None\<close>) and when there is no such column.
\<close>

definition column :: "table option \<Rightarrow> string \<Rightarrow> pyval list act" where
  "column df c =
     (case df of
        None \<Rightarrow> raise (AttributeError c)
      | Some tb \<Rightarrow>
          if c \<in> set (cols tb) then ret (map (\<lambda>r. dict_get r c) (rows tb))
          else raise (AttributeError c))"

text \<open>The first loop of \<open>init_predecessors\<close>, over the predecessors of the configuration.\<close>

fun config_predecessors :: "pydict \<Rightarrow> (pyval \<times> pyval) list \<Rightarrow> (pyval \<times> pyval) list act" where
  "config_predecessors [] acc = ret acc"
| "config_predecessors ((pred_name, val) # rest) acc =
     bind (if truthy val
           then (case val of PDict v \<Rightarrow> ret (dict_get v ''ToolID'') | _ \<Rightarrow> raise (AttributeError ''get''))
           else ret PNone) (\<lambda>pred_id.
     bind (if \<not> truthy pred_id then
             bind (reading (\<lambda>d. get_row_insensitive d ''Tools'' ''Name'' (PStr pred_name))) (\<lambda>pred_tool.
             case pred_tool of
               None \<Rightarrow> ret pred_id
             | Some row \<Rightarrow> if row = [] then ret pred_id else subscript row ''ToolID'')
           else ret pred_id) (\<lambda>pred_id.
     config_predecessors rest (acc @ [(PStr pred_name, pred_id)])))"

text \<open>
  The second loop, over the predecessors the database has for the tool: one that the
  configuration did not give is added with the name of its tool, and it is an error when
  there is no such tool.
\<close>

fun db_predecessors :: "pyval list \<Rightarrow> pyval list \<Rightarrow> (pyval \<times> pyval) list \<Rightarrow> (pyval \<times> pyval) list act" where
  "db_predecessors [] pred_ids acc = ret acc"
| "db_predecessors (pred_id # rest) pred_ids acc =
     (if \<not> truthy pred_id then db_predecessors rest pred_ids acc
      else if pred_id \<notin> set pred_ids then
        bind (reading (\<lambda>d. get_row d ''Tools'' ''ToolID'' pred_id)) (\<lambda>tool_row.
        case tool_row of
          None \<Rightarrow> raise_error (''Predecessor tool '' @ py_str pred_id @ '' not found.'') ClothoToolError
        | Some row \<Rightarrow> db_predecessors rest pred_ids (acc @ [(dict_get row ''Name'', pred_id)]))
      else db_predecessors rest pred_ids acc)"

definition init_predecessors :: "tool \<Rightarrow> pydict \<Rightarrow> tool act" where
  "init_predecessors t config =
     bind (case map_of config ''predecessors'' of
             None \<Rightarrow> ret []
           | Some (PDict preds) \<Rightarrow> ret preds
           | Some other \<Rightarrow> raise (AttributeError ''items'')) (\<lambda>preds.
     bind (config_predecessors preds []) (\<lambda>table.
     if \<not> truthy (Tool_id t) then ret (t\<lparr>predecessors := table\<rparr>)
     else
       bind (bind (reading (\<lambda>d. ClothoDB_get d ''ToolPredecessors'' (tool_query t)))
               (\<lambda>pred_rows. column pred_rows ''PredecessorID''))
         (\<lambda>db_ids.
       bind (db_predecessors db_ids (map snd table) table) (\<lambda>table.
       ret (t\<lparr>predecessors := table\<rparr>)))))"

text \<open>The first loop of \<open>init_params\<close>, over the parameters of the configuration.\<close>

fun config_params :: "pydict \<Rightarrow> tool \<Rightarrow> pyval list \<Rightarrow> (tool \<times> pyval list) act" where
  "config_params [] t param_config_ids = ret (t, param_config_ids)"
| "config_params ((name, param_cfg) # rest) t param_config_ids =
     (case param_cfg of
        PDict pc \<Rightarrow>
          bind (ToolParam_init
                  (Some (AList.update ''ToolID'' (Tool_id t) (AList.update ''Name'' (PStr name) pc)))
                  PNone (tool_has_shed t)) (\<lambda>param.
          let param_id = ToolParam_id param;
              param_config_ids =
                (if truthy param_id then param_config_ids @ [param_id] else param_config_ids);
              t = t\<lparr>params := AList.update (PStr name) param (params t)\<rparr>;
              t = (if \<not> truthy (is_input param) \<and> param_name param \<notin> set (outputs t)
                   then t\<lparr>outputs := outputs t @ [param_name param]\<rparr> else t)
          in config_params rest t param_config_ids)
      | _ \<Rightarrow> raise (TypeError ''object does not support item assignment''))"

text \<open>The second loop, over the parameters the database has for the tool.\<close>

fun db_params :: "pyval list \<Rightarrow> pyval list \<Rightarrow> tool \<Rightarrow> tool act" where
  "db_params [] param_config_ids t = ret t"
| "db_params (param_id # rest) param_config_ids t =
     (if param_id \<notin> set param_config_ids then
        bind (ToolParam_init None param_id (tool_has_shed t)) (\<lambda>param.
        db_params rest param_config_ids (t\<lparr>params := AList.update (param_name param) param (params t)\<rparr>))
      else db_params rest param_config_ids t)"

definition init_params :: "tool \<Rightarrow> pydict \<Rightarrow> tool act" where
  "init_params t config =
     bind (case get_case_insensitive config ''params'' (PDict []) of
             PDict param_configs \<Rightarrow> ret param_configs
           | _ \<Rightarrow> raise (AttributeError ''items'')) (\<lambda>param_configs.
     bind (config_params param_configs t []) (\<lambda>(t, param_config_ids).
     if \<not> truthy (Tool_id t) then ret t
     else
       bind (bind (reading (\<lambda>d. ClothoDB_get d ''ToolParams'' (tool_query t)))
               (\<lambda>param_rows. column param_rows ''ParamID'')) (\<lambda>ids.
       db_params ids param_config_ids t)))"

text \<open>
  \<open>sort_values('OutputOrder')\<close>: by the integer in the column, nulls last. The sort is
  taken to keep the order of rows with equal keys.
\<close>

definition has_order :: "row \<Rightarrow> bool" where
  "has_order r = (case dict_get r ''OutputOrder'' of PInt i \<Rightarrow> True | _ \<Rightarrow> False)"

definition order_key :: "row \<Rightarrow> int" where
  "order_key r = (case dict_get r ''OutputOrder'' of PInt i \<Rightarrow> i | _ \<Rightarrow> 0)"

definition sort_by_output_order :: "row list \<Rightarrow> row list" where
  "sort_by_output_order rs = sort_key order_key (filter has_order rs) @ filter (\<lambda>r. \<not> has_order r) rs"

text \<open>
  \<open>Tool.configure\<close>. The \<open>outputs\<close> entry of a configuration is a list; the names the
  database has for the tool are appended to it, in their order, when they are not there.
\<close>

definition Tool_configure :: "tool \<Rightarrow> pydict option \<Rightarrow> pyval \<Rightarrow> tool act" where
  "Tool_configure t config ident =
     bind (reading (\<lambda>d. fill_config d ''Tools'' ''ToolID'' config ident (Some ''Name''))) (\<lambda>cfg.
     let t = t\<lparr>tool_config := cfg\<rparr>;
         config = config_or_empty config
     in
     bind (init_predecessors t config) (\<lambda>t.
     bind (case get_case_insensitive config ''outputs'' (PList []) of
             PList names \<Rightarrow> ret names
           | _ \<Rightarrow> raise (AttributeError ''append'')) (\<lambda>names.
     bind (bind (reading (\<lambda>d. ClothoDB_get d ''ToolOutputs'' (tool_query t))) (\<lambda>got.
             case got of
               None \<Rightarrow> raise (AttributeError ''sort_values'')
             | Some output_rows \<Rightarrow>
                 if ''OutputOrder'' \<notin> set (cols output_rows) then raise (KeyError ''OutputOrder'')
                 else column (Some (output_rows\<lparr>rows := sort_by_output_order (rows output_rows)\<rparr>))
                        ''Name'')) (\<lambda>db_names.
     init_params
       (t\<lparr>outputs := fold (\<lambda>db_name outs. if db_name \<in> set outs then outs else outs @ [db_name])
                        db_names names\<rparr>)
       config))))"

text \<open>\<open>Tool(db, config, id, resource_shed)\<close>.\<close>

definition Tool_init :: "pydict option \<Rightarrow> pyval \<Rightarrow> bool \<Rightarrow> tool act" where
  "Tool_init config ident resource_shed =
     Tool_configure
       \<lparr>tool_config = [], params = [], predecessors = [], outputs = [], start_time = None,
        tool_has_shed = resource_shed\<rparr>
       config ident"

text \<open>The three loops of \<open>Tool.commit\<close>: parameters, predecessors, outputs.\<close>

fun commit_params :: "(pyval \<times> toolparam) list \<Rightarrow> pyval \<Rightarrow> (pyval \<times> toolparam) list act" where
  "commit_params [] tool_id = ret []"
| "commit_params ((name, param) # rest) tool_id =
     bind (ToolParam_commit param tool_id) (\<lambda>param.
     bind (commit_params rest tool_id) (\<lambda>rest.
     ret ((name, param) # rest)))"

fun commit_predecessors :: "pyval list \<Rightarrow> pyval list \<Rightarrow> pyval \<Rightarrow> unit act" where
  "commit_predecessors [] db_preds tool_id = ret ()"
| "commit_predecessors (pred_id # rest) db_preds tool_id =
     (if pred_id \<notin> set db_preds then
        bind uuid1 (\<lambda>u.
        bind (set_row_s ''ToolPredecessors''
                [(''RelationshipID'', u), (''ToolID'', tool_id), (''PredecessorID'', pred_id)]
                ''RelationshipID'') (\<lambda>x.
        commit_predecessors rest db_preds tool_id))
      else commit_predecessors rest db_preds tool_id)"

fun commit_outputs :: "(nat \<times> pyval) list \<Rightarrow> table option \<Rightarrow> pyval \<Rightarrow> unit act" where
  "commit_outputs [] output_rows tool_id = ret ()"
| "commit_outputs ((i, name) # rest) output_rows tool_id =
     (case output_rows of
        None \<Rightarrow> raise (AttributeError ''loc'')
      | Some tb \<Rightarrow>
          if ''Name'' \<notin> set (cols tb) then raise (AttributeError ''Name'')
          else if ''OutputID'' \<notin> set (cols tb) then raise (KeyError ''OutputID'')
          else
            bind (case filter (\<lambda>r. pd_eq (dict_get r ''Name'') name) (rows tb) of
                    r # others \<Rightarrow> ret (dict_get r ''OutputID'')
                  | [] \<Rightarrow> uuid1) (\<lambda>output_id.
            bind (set_row_s ''ToolOutputs''
                    [(''OutputID'', output_id), (''ToolID'', tool_id),
                     (''OutputOrder'', PInt (int i)), (''Name'', name)]
                    ''OutputID'') (\<lambda>x.
            commit_outputs rest output_rows tool_id)))"

definition Tool_commit :: "tool \<Rightarrow> tool act" where
  "Tool_commit t =
     bind (if \<not> truthy (Tool_id t)
           then bind uuid1 (\<lambda>u. ret (t\<lparr>tool_config := AList.update ''ToolID'' u (tool_config t)\<rparr>))
           else ret t) (\<lambda>t.
     bind (set_row_s ''Tools'' (tool_config t) ''ToolID'') (\<lambda>x.
     bind (commit_params (params t) (Tool_id t)) (\<lambda>ps.
     let t = t\<lparr>params := ps\<rparr> in
     bind (bind (reading (\<lambda>d. ClothoDB_get d ''ToolPredecessors'' (tool_query t)))
               (\<lambda>pred_rows. column pred_rows ''PredecessorID''))
       (\<lambda>db_preds.
     bind (commit_predecessors (map snd (predecessors t)) db_preds (Tool_id t)) (\<lambda>x.
     bind (reading (\<lambda>d. ClothoDB_get d ''ToolOutputs'' (tool_query t))) (\<lambda>output_rows.
     bind (commit_outputs (enumerate 0 (outputs t)) output_rows (Tool_id t)) (\<lambda>x.
     ret t)))))))"

text \<open>\<open>Tool.start_activity\<close>: the clock is read, and the row of the activity is written.\<close>

definition start_activity :: "tool \<Rightarrow> pyval \<Rightarrow> tool act" where
  "start_activity t activity_id =
     bind get_now (\<lambda>t0.
     bind (set_row_s ''Activity''
             [(''ActivityID'', activity_id),
              (''ToolID'', Tool_id t),
              (''ToolName'', Tool_name t),
              (''ToolPath'', Tool_path t),
              (''StartTime'', PStr (time_string_of_instant t0))]
             ''ActivityID'') (\<lambda>x.
     ret (t\<lparr>start_time := Some t0\<rparr>)))"

text \<open>\<open>message.replace("'", '"')\<close>.\<close>

definition replace_quotes :: "string \<Rightarrow> string" where
  "replace_quotes m = map (\<lambda>c. if c = sq then dq else c) m"

text \<open>
  \<open>Tool.end_activity\<close>: the row of the activity gets its end time, its duration, the
  success flag and the message, through \<open>update\<close>, which skips a \<open>None\<close>.
\<close>

definition end_activity :: "tool \<Rightarrow> pyval \<Rightarrow> bool \<Rightarrow> pyval \<Rightarrow> unit act" where
  "end_activity t activity_id succeeded message =
     bind (case message of
             PNone \<Rightarrow> ret PNone
           | PStr m \<Rightarrow> ret (PStr (replace_quotes m))
           | PPath p \<Rightarrow> raise (TypeError ''replace() takes 2 positional arguments'')
           | _ \<Rightarrow> raise (AttributeError ''replace'')) (\<lambda>message.
     bind get_now (\<lambda>end_time.
     case start_time t of
       None \<Rightarrow> raise (TypeError ''unsupported operand type(s) for -'')
     | Some started \<Rightarrow>
         writing (\<lambda>d. ClothoDB_update d ''Activity'' ''ActivityID'' activity_id
                        [(''EndTime'', PStr (time_string_of_instant end_time)),
                         (''Duration'', PStr (time_string_of_duration (end_time - started))),
                         (''Succeeded'', PBool succeeded),
                         (''Message'', message)])))"

text \<open>\<open>Tool.write_batches\<close>: one row of \<open>BatchActivity\<close> per batch identifier.\<close>

fun write_batch_rows :: "pyval list \<Rightarrow> pyval \<Rightarrow> unit act" where
  "write_batch_rows [] activity_id = ret ()"
| "write_batch_rows (batch_id # rest) activity_id =
     bind uuid1 (\<lambda>u.
     bind (set_row_s ''BatchActivity''
             [(''RelationshipID'', u), (''BatchID'', batch_id), (''ActivityID'', activity_id)]
             ''RelationshipID'') (\<lambda>x.
     write_batch_rows rest activity_id))"

definition write_batches :: "pyval \<Rightarrow> pyval \<Rightarrow> unit act" where
  "write_batches batch_ids activity_id =
     (if batch_ids = PNone then ret ()
      else write_batch_rows (case batch_ids of PList ids \<Rightarrow> ids | v \<Rightarrow> [v]) activity_id)"

text \<open>The strings \<open>true\<close> and \<open>false\<close>, in any case, become booleans.\<close>

definition coerce_bool :: "pyval \<Rightarrow> pyval" where
  "coerce_bool val =
     (case val of
        PStr s \<Rightarrow>
          if lower s = ''true'' then PBool True
          else if lower s = ''false'' then PBool False
          else val
      | _ \<Rightarrow> val)"

text \<open>
  A \<open>KeyError\<close> raised inside \<open>try: ... except KeyError: raise_error(message, ...)\<close>
  becomes the logged \<open>ClothoToolError\<close>.
\<close>

definition except_KeyError :: "'a act \<Rightarrow> string \<Rightarrow> 'a act" where
  "except_KeyError m message s =
     (case m s of
        (Inl (KeyError k), s') \<Rightarrow> raise_error message ClothoToolError s'
      | other \<Rightarrow> other)"

text \<open>
  The body of the loop of \<open>Tool.update_inputs\<close> for one input parameter: a value fed by
  a predecessor is stored in the parameter; the argument is the caller's when that is
  truthy and the parameter's value otherwise; it is coerced, put among the keyword
  arguments and recorded.
\<close>

definition update_input ::
  "nat \<Rightarrow> tool \<Rightarrow> pyval \<Rightarrow> (pyval \<times> kwargs) list \<Rightarrow> pyval \<Rightarrow> pyval \<Rightarrow> toolparam \<Rightarrow> kwargs
     \<Rightarrow> (toolparam \<times> kwargs) act" where
  "update_input n t activity_id pred_outputs default_pred_name name param kwargs =
     (let feeder_tool = py_or (feeder_tool_name param) default_pred_name in
      bind (if truthy feeder_tool \<and> truthy (feeder_param_name param) then
              bind (except_KeyError
                      (case map_of pred_outputs feeder_tool of
                         None \<Rightarrow> raise (KeyError (py_str feeder_tool))
                       | Some feeder_params \<Rightarrow> ret feeder_params)
                      (''Feeder tool '' @ dq # py_str feeder_tool @ dq # '' not found for tool '' @ dq #
                       py_str (Tool_name t) @ ''.'' @ [dq])) (\<lambda>feeder_params.
              except_KeyError
                (case map_of feeder_params (feeder_param_name param) of
                   None \<Rightarrow> raise (KeyError (py_str (feeder_param_name param)))
                 | Some v \<Rightarrow> value_set param v)
                (''Feeder parameter '' @ dq # py_str (feeder_param_name param) @ dq #
                 '' not found for tool '' @ dq # py_str (Tool_name t) @ '','' @ dq # '' feeder '' @ dq #
                 py_str feeder_tool @ ''.'' @ [dq]))
            else ret param) (\<lambda>param.
      bind (value_get n param) (\<lambda>dflt.
      bind (let v = (case map_of kwargs name of None \<Rightarrow> dflt | Some v \<Rightarrow> v) in
            if truthy v then ret v else value_get n param) (\<lambda>val.
      let val = coerce_bool val in
      bind (record_io param activity_id val (Tool_id t)) (\<lambda>param.
      ret (param, AList.update name val kwargs))))))"

fun update_inputs_loop ::
  "nat \<Rightarrow> tool \<Rightarrow> pyval \<Rightarrow> (pyval \<times> kwargs) list \<Rightarrow> pyval \<Rightarrow> (pyval \<times> toolparam) list \<Rightarrow> kwargs
     \<Rightarrow> ((pyval \<times> toolparam) list \<times> kwargs) act" where
  "update_inputs_loop n t activity_id pred_outputs default_pred_name [] kwargs = ret ([], kwargs)"
| "update_inputs_loop n t activity_id pred_outputs default_pred_name ((name, param) # rest) kwargs =
     (if \<not> truthy (is_input param) then
        bind (update_inputs_loop n t activity_id pred_outputs default_pred_name rest kwargs)
          (\<lambda>(rest, kwargs). ret ((name, param) # rest, kwargs))
      else
        bind (update_input n t activity_id pred_outputs default_pred_name name param kwargs)
          (\<lambda>(param, kwargs).
        bind (update_inputs_loop n t activity_id pred_outputs default_pred_name rest kwargs)
          (\<lambda>(rest, kwargs). ret ((name, param) # rest, kwargs))))"

definition update_inputs ::
  "nat \<Rightarrow> tool \<Rightarrow> pyval \<Rightarrow> (pyval \<times> kwargs) list \<Rightarrow> pyval \<Rightarrow> kwargs \<Rightarrow> (tool \<times> kwargs) act" where
  "update_inputs n t activity_id pred_outputs default_pred_name kwargs =
     bind (update_inputs_loop n t activity_id pred_outputs default_pred_name (params t) kwargs)
       (\<lambda>(ps, kwargs). ret (t\<lparr>params := ps\<rparr>, kwargs))"

text \<open>\<open>Tool.update_outputs\<close>, likewise, for the parameters that are no inputs.\<close>

definition update_output ::
  "nat \<Rightarrow> tool \<Rightarrow> kwargs \<Rightarrow> pyval \<Rightarrow> kwargs \<Rightarrow> pyval \<Rightarrow> toolparam \<Rightarrow> toolparam act" where
  "update_output n t output_dict activity_id kwargs name param =
     bind (case map_of output_dict name of
             Some v \<Rightarrow> value_set param v
           | None \<Rightarrow> ret param) (\<lambda>param.
     bind (value_get n param) (\<lambda>dflt.
     let val = coerce_bool (case map_of kwargs name of None \<Rightarrow> dflt | Some v \<Rightarrow> v) in
     record_io param activity_id val (Tool_id t)))"

fun update_outputs_loop ::
  "nat \<Rightarrow> tool \<Rightarrow> kwargs \<Rightarrow> pyval \<Rightarrow> kwargs \<Rightarrow> (pyval \<times> toolparam) list
     \<Rightarrow> (pyval \<times> toolparam) list act" where
  "update_outputs_loop n t output_dict activity_id kwargs [] = ret []"
| "update_outputs_loop n t output_dict activity_id kwargs ((name, param) # rest) =
     bind (if truthy (is_input param) then ret param
           else update_output n t output_dict activity_id kwargs name param) (\<lambda>param.
     bind (update_outputs_loop n t output_dict activity_id kwargs rest) (\<lambda>rest.
     ret ((name, param) # rest)))"

definition update_outputs :: "nat \<Rightarrow> tool \<Rightarrow> kwargs \<Rightarrow> pyval \<Rightarrow> kwargs \<Rightarrow> tool act" where
  "update_outputs n t output_dict activity_id kwargs =
     bind (update_outputs_loop n t output_dict activity_id kwargs (params t))
       (\<lambda>ps. ret (t\<lparr>params := ps\<rparr>))"

text \<open>
  \<open>Tool.run_predecessors\<close>. Each predecessor is built from the database by its
  identifier and run with the caller's keyword arguments; \<open>run\<close> stands for the method
  \<open>Tool.run\<close> of the predecessor. The first one that returns \<open>None\<close> ends the loop with a
  warning and the result \<open>(None, None)\<close>, here \<open>None\<close>.
\<close>

fun run_predecessors_loop ::
  "(tool \<Rightarrow> kwargs \<Rightarrow> (kwargs option \<times> tool) act) \<Rightarrow> tool \<Rightarrow> kwargs \<Rightarrow> pyval list
     \<Rightarrow> (pyval \<times> kwargs) list \<Rightarrow> pyval \<Rightarrow> ((pyval \<times> kwargs) list \<times> pyval) option act" where
  "run_predecessors_loop run t kwargs [] pred_outputs last_name = ret (Some (pred_outputs, last_name))"
| "run_predecessors_loop run t kwargs (pred_id # rest) pred_outputs last_name =
     bind (Tool_init None pred_id (tool_has_shed t)) (\<lambda>pred.
     bind (run pred kwargs) (\<lambda>(result, pred).
     case result of
       None \<Rightarrow>
         bind (logging WARNING
                 (dq # py_str (Tool_name t) @ dq # '' failed due to '' @ dq # py_str (Tool_name pred)
                  @ dq # '' failure.'')) (\<lambda>x.
         ret None)
     | Some outs \<Rightarrow>
         run_predecessors_loop run t kwargs rest
           (AList.update (Tool_name pred) outs pred_outputs) (Tool_name pred)))"

definition run_predecessors ::
  "(tool \<Rightarrow> kwargs \<Rightarrow> (kwargs option \<times> tool) act) \<Rightarrow> tool \<Rightarrow> kwargs
     \<Rightarrow> ((pyval \<times> kwargs) list \<times> pyval) option act" where
  "run_predecessors run t kwargs =
     bind (run_predecessors_loop run t kwargs (map snd (predecessors t)) [] PNone) (\<lambda>r.
     case r of
       None \<Rightarrow> ret None
     | Some (pred_outputs, last_name) \<Rightarrow>
         ret (Some (pred_outputs, if length (predecessors t) = 1 then last_name else PNone)))"

text \<open>
  The tool's function: \<open>path.rsplit('.', 1)\<close> must give a module and a name, and both
  must exist. The world knows the functions by their full path.
\<close>

definition load_func :: "pyval \<Rightarrow> (kwargs \<Rightarrow> string + pyval) act" where
  "load_func path s =
     (case path of
        PStr p \<Rightarrow>
          if CHR ''.'' \<notin> set p then raise (ValueError ''not enough values to unpack'') s
          else (case funcs s p of
                  None \<Rightarrow> raise (ImportError p) s
                | Some func \<Rightarrow> ret func s)
      | _ \<Rightarrow> raise (AttributeError ''rsplit'') s)"

text \<open>
  \<open>func(**kwargs)\<close>: the call is refused with a \<open>TypeError\<close> when a keyword is no string;
  otherwise the function is entered (which the world records) and returns a value or
  raises an exception, given by its message. The effects of the function itself on the
  world are not modelled.
\<close>

definition is_str :: "pyval \<Rightarrow> bool" where
  "is_str v = (case v of PStr s \<Rightarrow> True | _ \<Rightarrow> False)"

definition invoke :: "pyval \<Rightarrow> (kwargs \<Rightarrow> string + pyval) \<Rightarrow> kwargs \<Rightarrow> (string + pyval) act" where
  "invoke path func kwargs s =
     (if list_all (\<lambda>(k, v). is_str k) kwargs
      then (Inr (func kwargs), s\<lparr>calls := calls s @ [(py_str path, kwargs)]\<rparr>)
      else (Inr (Inl ''keywords must be strings''), s))"

text \<open>
  The result of the function against the names of the outputs: \<open>None\<close> is no value, a
  tuple is its elements, anything else is one value; \<open>dict(zip(outputs, values))\<close> pairs
  them in order, and fails for a name that cannot be a dictionary key.
\<close>

definition zip_outputs :: "pyval list \<Rightarrow> pyval \<Rightarrow> string + kwargs" where
  "zip_outputs names output =
     (let output_tuple = (case output of PNone \<Rightarrow> [] | PTuple vs \<Rightarrow> vs | v \<Rightarrow> [v]);
          pairs = zip names output_tuple
      in if list_all (\<lambda>(k, v). hashable k) pairs
         then Inr (fold (\<lambda>(k, v) d. AList.update k v d) pairs [])
         else Inl ''unhashable type'')"

text \<open>
  \<open>Tool.run\<close> after the predecessors have run: the tool is committed when it has no
  identifier, the inputs are resolved and recorded, the function is loaded, the
  activity is started, and the function is called inside \<open>try\<close>. An exception there is
  logged and recorded with \<open>end_activity\<close>, and \<open>run\<close> returns \<open>None\<close>
  (\<open>run_failed\<close>, the \<open>except\<close> branch). Otherwise the batches, the end of the activity
  and the outputs are recorded, and \<open>run\<close> returns the dictionary of the outputs
  (\<open>run_succeeded\<close>, the statements after the \<open>try\<close>).
\<close>

definition run_failed :: "tool \<Rightarrow> pyval \<Rightarrow> string \<Rightarrow> (kwargs option \<times> tool) act" where
  "run_failed t activity_id e =
     bind (logging ERROR (''Tool '' @ py_str (Tool_name t) @ '' failed. '' @ e)) (\<lambda>x.
     bind (end_activity t activity_id False (PStr e)) (\<lambda>x.
     ret (None, t)))"

definition run_succeeded ::
  "nat \<Rightarrow> tool \<Rightarrow> kwargs \<Rightarrow> pyval \<Rightarrow> kwargs \<Rightarrow> (kwargs option \<times> tool) act" where
  "run_succeeded n t kwargs activity_id output_dict =
     bind (write_batches
             (case map_of output_dict (PStr ''batch_ids'') of
                Some ids \<Rightarrow> ids
              | None \<Rightarrow> (case map_of output_dict (PStr ''batch_id'') of
                           Some i \<Rightarrow> i | None \<Rightarrow> PNone))
             activity_id) (\<lambda>x.
     bind (end_activity t activity_id True
             (case map_of output_dict (PStr ''message'') of Some m \<Rightarrow> m | None \<Rightarrow> PNone)) (\<lambda>x.
     bind (update_outputs n t output_dict activity_id kwargs) (\<lambda>t.
     ret (Some output_dict, t))))"

definition run_body ::
  "nat \<Rightarrow> tool \<Rightarrow> kwargs \<Rightarrow> (pyval \<times> kwargs) list \<Rightarrow> pyval \<Rightarrow> (kwargs option \<times> tool) act" where
  "run_body n t kwargs pred_outputs default_pred_name =
     bind (if \<not> truthy (Tool_id t) then Tool_commit t else ret t) (\<lambda>t.
     bind uuid1 (\<lambda>activity_id.
     bind (update_inputs n t activity_id pred_outputs default_pred_name kwargs) (\<lambda>(t, kwargs).
     bind (load_func (Tool_path t)) (\<lambda>func.
     bind (start_activity t activity_id) (\<lambda>t.
     bind (invoke (Tool_path t) func kwargs) (\<lambda>outcome.
     case (case outcome of Inl e \<Rightarrow> Inl e | Inr output \<Rightarrow> zip_outputs (outputs t) output) of
       Inl e \<Rightarrow> run_failed t activity_id e
     | Inr output_dict \<Rightarrow> run_succeeded n t kwargs activity_id output_dict))))))"

text \<open>
  \<open>Tool.run\<close>. It runs its predecessors, which run theirs, and nothing checks that the
  graph of predecessors has no cycle; the first argument bounds the depth of the calls,
  as for \<^const>\<open>Resource_path\<close>. The result is the dictionary of the outputs, or \<open>None\<close>
  (the failure signal), with the tool object as the run leaves it.
\<close>

fun Tool_run :: "nat \<Rightarrow> tool \<Rightarrow> kwargs \<Rightarrow> (kwargs option \<times> tool) act" where
  "Tool_run 0 t kwargs = raise RecursionError"
| "Tool_run (Suc n) t kwargs =
     (if Tool_path t = PNone
      then raise_error (''Path not found for tool '' @ dq # py_str (Tool_name t) @ ''.'' @ [dq])
             ClothoToolError
      else
        bind (run_predecessors (Tool_run n) t kwargs) (\<lambda>preds.
        case preds of
          None \<Rightarrow> ret (None, t)
        | Some (pred_outputs, default_pred_name) \<Rightarrow>
            run_body n t kwargs pred_outputs default_pred_name))"

section \<open>Reference notions for the properties\<close>

text \<open>
  What a configuration defines for a field: the value under the first key equal to the
  field's name up to case.
\<close>

definition caller_value :: "pydict \<Rightarrow> string \<Rightarrow> pyval option" where
  "caller_value config f = map_option snd (find (\<lambda>(k, v). lower k = lower f) config)"

text \<open>
  The persisted row a resolution matches, in the words of the specification: the
  identifier is the one the configuration defines, else the one supplied; when there is
  one, the row is looked up by it; when no row was found and a name column was given, the
  row is looked up by the name the configuration defines, when it defines one.
\<close>

definition spec_matched_row ::
  "database \<Rightarrow> string \<Rightarrow> string \<Rightarrow> pydict \<Rightarrow> pyval \<Rightarrow> string option \<Rightarrow> error + row option" where
  "spec_matched_row d table_name id_column config ident name_column =
     (let idv = (case caller_value config id_column of Some v \<Rightarrow> v | None \<Rightarrow> ident) in
      case (if idv = PNone then Inr None else get_row_insensitive d table_name id_column idv) of
        Inl e \<Rightarrow> Inl e
      | Inr (Some p) \<Rightarrow> Inr (Some p)
      | Inr None \<Rightarrow>
          (case name_column of
             None \<Rightarrow> Inr None
           | Some nc \<Rightarrow>
               if nc = [] then Inr None
               else
                 (case caller_value config nc of
                    None \<Rightarrow> Inr None
                  | Some name \<Rightarrow>
                      if truthy name then get_row_insensitive d table_name nc name
                      else Inr None)))"

text \<open>The last loop of \<open>fill_config\<close> on its own.\<close>

definition overlay :: "pydict \<Rightarrow> row \<Rightarrow> row" where
  "overlay config r =
     map (\<lambda>(key, db_val). (key, path_to_str (get_case_insensitive config key db_val))) r"

text \<open>The rows of a table that have a given value in a given column.\<close>

definition rows_with :: "database \<Rightarrow> string \<Rightarrow> string \<Rightarrow> pyval \<Rightarrow> row list" where
  "rows_with d table_name id_col idv =
     filter (\<lambda>r. map_of r id_col = Some idv) (table_rows d table_name)"

text \<open>The columns of the row \<open>set_row\<close> lays out, and of the table it writes.\<close>

definition new_columns :: "(string \<times> string list) list \<Rightarrow> string \<Rightarrow> row \<Rightarrow> string list" where
  "new_columns tpl table_name row =
     (case map_of tpl table_name of
        Some template \<Rightarrow> template @ filter (\<lambda>k. k \<notin> set template) (remdups (map fst row))
      | None \<Rightarrow> remdups (map fst row))"

definition result_columns ::
  "(string \<times> string list) list \<Rightarrow> database \<Rightarrow> string \<Rightarrow> row \<Rightarrow> string list" where
  "result_columns tpl d table_name row =
     table_cols d table_name @
     filter (\<lambda>c. c \<notin> set (table_cols d table_name)) (new_columns tpl table_name row)"

text \<open>
  The table \<open>set_row\<close> leaves: the rows that have another identifier, then the new row,
  all laid out on the columns above.
\<close>

definition written_table ::
  "(string \<times> string list) list \<Rightarrow> database \<Rightarrow> string \<Rightarrow> row \<Rightarrow> string \<Rightarrow> pyval \<Rightarrow> table" where
  "written_table tpl d table_name row id_col idv =
     \<lparr>cols = result_columns tpl d table_name row,
      rows = map (pad_row (result_columns tpl d table_name row))
               (filter (\<lambda>r. pd_ne (dict_get r id_col) idv) (table_rows d table_name) @ [row])\<rparr>"

text \<open>
  A statement that writes to the tables of \<open>W\<close> only: every other table is after it as
  it was before, whatever the result, and so are the schema and the functions.
\<close>

definition writes_only :: "string set \<Rightarrow> 'a act \<Rightarrow> bool" where
  "writes_only W m =
     (\<forall>s. templates (snd (m s)) = templates s \<and> funcs (snd (m s)) = funcs s \<and>
          (\<forall>tn. tn \<notin> W \<longrightarrow> map_of (db (snd (m s))) tn = map_of (db s) tn))"

section \<open>Example data\<close>

text \<open>The table of \<open>test_clothodb.py\<close>, with a second apple.\<close>

definition fruit_db :: database where
  "fruit_db =
     [(''Fruit'',
       \<lparr>cols = [''FruitID'', ''Name'', ''Color''],
        rows = [[(''FruitID'', PInt 0), (''Name'', PStr ''apple''), (''Color'', PStr ''green'')],
                [(''FruitID'', PInt 1), (''Name'', PStr ''banana''), (''Color'', PStr ''yellow'')],
                [(''FruitID'', PInt 2), (''Name'', PStr ''acorn''), (''Color'', PStr ''brown'')],
                [(''FruitID'', PInt 3), (''Name'', PStr ''apple''), (''Color'', PStr ''red'')]]\<rparr>)]"

text \<open>The three resources of \<open>test_resource.py\<close>, in the order they are written there.\<close>

definition resource_db :: database where
  "resource_db =
     [(''Resources'',
       \<lparr>cols = [''ResourceID'', ''Name'', ''Path'', ''Parent''],
        rows = [[(''ResourceID'', PStr ''bogus3''), (''Name'', PStr ''project folder''),
                 (''Path'', PStr ''asdf''), (''Parent'', PStr ''bogus2'')],
                [(''ResourceID'', PStr ''bogus1''), (''Name'', PStr ''X Drive''),
                 (''Path'', PStr ''X:''), (''Parent'', PNone)],
                [(''ResourceID'', PStr ''bogus2''), (''Name'', PStr ''GIS''),
                 (''Path'', PStr ''GIS''), (''Parent'', PStr ''bogus1'')]]\<rparr>)]"

text \<open>A table with a name that holds a single quote.\<close>

definition quote_db :: database where
  "quote_db =
     [(''People'',
       \<lparr>cols = [''PersonID'', ''Name''],
        rows = [[(''PersonID'', PInt 0), (''Name'', PStr (''O'' @ sq # ''Brien''))]]\<rparr>)]"

text \<open>
  Modelled from the spec: \<open>ClothoSchema.yaml\<close>, which \<open>get_schema_templates\<close> reads, is
  not among the sources. The columns of each table are the attributes the specification
  lists for the entity (section 3), and for the tables of outputs and predecessors the
  columns the code writes.
\<close>

definition clotho_schema :: "(string \<times> string list) list" where
  "clotho_schema =
     [(''Resources'', [''ResourceID'', ''Name'', ''Path'', ''Parent'']),
      (''Tools'', [''ToolID'', ''Name'', ''Path'']),
      (''ToolParams'', [''ParamID'', ''ToolID'', ''Name'', ''IsInput'', ''IsResource'', ''IsRead'',
                        ''IsWrite'', ''Value'', ''FeederToolName'', ''FeederParamName'']),
      (''ToolOutputs'', [''OutputID'', ''ToolID'', ''OutputOrder'', ''Name'']),
      (''ToolPredecessors'', [''RelationshipID'', ''ToolID'', ''PredecessorID'']),
      (''Activity'', [''ActivityID'', ''ToolID'', ''ToolName'', ''ToolPath'', ''StartTime'',
                      ''EndTime'', ''Duration'', ''Succeeded'', ''Message'']),
      (''ActivityIO'', [''IOID'', ''ActivityID'', ''ParamID'', ''ParamName'', ''Value'',
                        ''IsResource'', ''IsInput'', ''IsRead'', ''IsWrite'']),
      (''BatchActivity'', [''RelationshipID'', ''BatchID'', ''ActivityID''])]"

text \<open>
  A world around a database: the schema above, an empty cache, nothing logged, a clock
  that starts at the epoch and advances by a microsecond between readings, and no tool
  functions.
\<close>

definition world_of :: "database \<Rightarrow> world" where
  "world_of d =
     \<lparr>db = d, templates = clotho_schema, shed_resources = [], logged = [], uuids = 0,
      now = 0, elapse = (\<lambda>k. 1), reads = 0, funcs = (\<lambda>p. None), calls = []\<rparr>"

text \<open>An activity that has started, and the tool that started it.\<close>

definition activity_db :: database where
  "activity_db =
     [(''Activity'',
       \<lparr>cols = [''ActivityID'', ''ToolID'', ''ToolName'', ''ToolPath'', ''StartTime'',
                ''EndTime'', ''Duration'', ''Succeeded'', ''Message''],
        rows = [[(''ActivityID'', PStr ''uuid-3''), (''ToolID'', PStr ''uuid-0''),
                 (''ToolName'', PStr ''TestTool''), (''ToolPath'', PStr ''clotho.utils.quote_val''),
                 (''StartTime'', PStr ''1970-01-01 00:00:00''), (''EndTime'', PNone),
                 (''Duration'', PNone), (''Succeeded'', PNone), (''Message'', PNone)]]\<rparr>)]"

definition started_tool :: tool where
  "started_tool =
     \<lparr>tool_config = [(''ToolID'', PStr ''uuid-0''), (''Name'', PStr ''TestTool''),
                     (''Path'', PStr ''clotho.utils.quote_val'')],
      params = [], predecessors = [], outputs = [], start_time = Some 0,
      tool_has_shed = False\<rparr>"

text \<open>An exception message with a single quote.\<close>

definition failing_message :: string where
  "failing_message = ''can'' @ sq # ''t open file''"

text \<open>
  The database after \<open>build_schema\<close>: every table of the schema, empty. A resource, a
  parameter and a tool that have their identifiers.
\<close>

definition schema_db :: database where
  "schema_db = map (\<lambda>(table_name, columns). (table_name, \<lparr>cols = columns, rows = []\<rparr>)) clotho_schema"

definition x_drive :: resource where
  "x_drive =
     \<lparr>res_config = [(''ResourceID'', PStr ''bogus1''), (''Name'', PStr ''X Drive''),
                    (''Path'', PStr ''X:''), (''Parent'', PNone)],
      res_parent_row = None, res_has_shed = False\<rparr>"

definition val_param :: toolparam where
  "val_param =
     \<lparr>param_config = [(''ParamID'', PStr ''param-1''), (''ToolID'', PStr ''tool-1''),
                      (''IsInput'', PBool True), (''Value'', PStr ''asdf'')],
      param_name = PStr ''val'', param_has_shed = False\<rparr>"

definition test_tool :: tool where
  "test_tool =
     \<lparr>tool_config = [(''ToolID'', PStr ''tool-1''), (''Name'', PStr ''TestTool''),
                     (''Path'', PStr ''clotho.utils.quote_val'')],
      params = [(PStr ''val'', val_param)], predecessors = [], outputs = [PStr ''out''],
      start_time = None, tool_has_shed = False\<rparr>"

section \<open>Properties of the persistence layer\<close>

lemma bind_e_simps [simp]:
  "bind_e (Inl e) f = Inl e"
  "bind_e (Inr x) f = f x"
  by (simp_all add: bind_e_def)

text \<open>
  C7. A case-sensitive lookup of a name with a single quote: exactly one row of the table
  has the name, and \<open>get_row\<close> returns \<open>None\<close>, as if there were none. The value is
  pasted between single quotes, the text is no SQL, and \<open>SQLiteDB.get\<close> takes the failed
  read for an absent table. The lookup without regard to case, which filters in pandas,
  returns the row.
\<close>

theorem get_row_single_quote:
  "filter (\<lambda>r. map_of r ''Name'' = Some (PStr (''O'' @ sq # ''Brien''))) (table_rows quote_db ''People'') =
     [[(''PersonID'', PInt 0), (''Name'', PStr (''O'' @ sq # ''Brien''))]] \<and>
   get_row quote_db ''People'' ''Name'' (PStr (''O'' @ sq # ''Brien'')) = Inr None \<and>
   get_row_insensitive quote_db ''People'' ''Name'' (PStr (''O'' @ sq # ''Brien'')) =
     Inr (Some [(''PersonID'', PInt 0), (''Name'', PStr (''O'' @ sq # ''Brien''))])"
  by code_simp

section \<open>Properties of the configuration resolver\<close>

lemma get_case_insensitive_caller_value:
  "get_case_insensitive config f dflt =
     (case caller_value config f of Some v \<Rightarrow> v | None \<Rightarrow> dflt)"
  by (induction config) (auto simp: caller_value_def)

lemma fold_update_values:
  "(f, v) \<in> set (fold (\<lambda>(k, v) r. AList.update k v r) kvs acc) \<Longrightarrow>
     (f, v) \<in> set kvs \<or> (f, v) \<in> set acc"
proof (induction kvs arbitrary: acc)
  case Nil
  then show ?case by simp
next
  case (Cons kv kvs)
  obtain k w where kv: "kv = (k, w)" by (cases kv)
  from Cons.prems have "(f, v) \<in> set (fold (\<lambda>(k, v) r. AList.update k v r) kvs (AList.update k w acc))"
    by (simp add: kv)
  from Cons.IH[OF this] have "(f, v) \<in> set kvs \<or> (f, v) \<in> set (AList.update k w acc)" .
  moreover have "set (AList.update k w acc) \<subseteq> insert (k, w) (set acc)"
    by (induction acc) auto
  ultimately show ?case by (auto simp: kv)
qed

lemma blank_row_values: "(f, v) \<in> set (blank_row columns) \<Longrightarrow> v = PNone"
  unfolding blank_row_def
  by (drule fold_update_values) (auto dest: set_zip_rightD)

lemma overlay_member:
  "(f, v) \<in> set (overlay config r) \<Longrightarrow>
     \<exists>pv. (f, pv) \<in> set r \<and>
          v = path_to_str (case caller_value config f of Some c \<Rightarrow> c | None \<Rightarrow> pv)"
  by (auto simp: overlay_def get_case_insensitive_caller_value)

lemma fill_config_alt:
  "fill_config d table_name id_column config ident name_column =
     (case spec_matched_row d table_name id_column (config_or_empty config) ident name_column of
        Inl e \<Rightarrow> Inl e
      | Inr (Some p) \<Rightarrow> Inr (overlay (config_or_empty config) p)
      | Inr None \<Rightarrow>
          (case get_columns d table_name of
             Inl e \<Rightarrow> Inl e
           | Inr columns \<Rightarrow> Inr (overlay (config_or_empty config) (blank_row columns))))"
proof -
  define cfg where "cfg = config_or_empty config"
  define idv where "idv = (case caller_value cfg id_column of Some v \<Rightarrow> v | None \<Rightarrow> ident)"
  define first where
    "first = (if idv = PNone then Inr None else get_row_insensitive d table_name id_column idv)"
  have unfold: "fill_config d table_name id_column config ident name_column =
      bind_e first (\<lambda>row.
      bind_e (case name_column of
                None \<Rightarrow> Inr row
              | Some nc \<Rightarrow>
                  if row = None \<and> nc \<noteq> [] then
                    (let name = get_case_insensitive cfg nc PNone in
                     if truthy name then get_row_insensitive d table_name nc name
                     else Inr row)
                  else Inr row) (\<lambda>row.
      bind_e (case row of
                None \<Rightarrow> bind_e (get_columns d table_name) (\<lambda>columns. Inr (blank_row columns))
              | Some r \<Rightarrow> Inr r) (\<lambda>row. Inr (overlay cfg row))))"
    unfolding fill_config_def Let_def overlay_def cfg_def first_def idv_def
      get_case_insensitive_caller_value[of _ id_column]
    by (rule refl)
  have spec: "spec_matched_row d table_name id_column cfg ident name_column =
      (case first of
        Inl e \<Rightarrow> Inl e
      | Inr (Some p) \<Rightarrow> Inr (Some p)
      | Inr None \<Rightarrow>
          (case name_column of
             None \<Rightarrow> Inr None
           | Some nc \<Rightarrow>
               if nc = [] then Inr None
               else
                 (case caller_value cfg nc of
                    None \<Rightarrow> Inr None
                  | Some name \<Rightarrow>
                      if truthy name then get_row_insensitive d table_name nc name
                      else Inr None)))"
    unfolding spec_matched_row_def Let_def first_def idv_def by (rule refl)
  show ?thesis
  proof (cases first)
    case (Inl e)
    then show ?thesis
      unfolding unfold cfg_def[symmetric] spec by simp
  next
    case (Inr row1)
    show ?thesis
    proof (cases row1)
      case (Some p)
      with Inr show ?thesis
        unfolding unfold cfg_def[symmetric] spec
        by (simp split: option.split)
    next
      case None
      with Inr have first: "first = Inr None" by simp
      show ?thesis
      proof (cases name_column)
        case None
        with first show ?thesis
          unfolding unfold cfg_def[symmetric] spec
          by (simp split: sum.split)
      next
        case (Some nc)
        show ?thesis
        proof (cases "nc \<noteq> [] \<and> truthy (get_case_insensitive cfg nc PNone)")
          case True
          then have cv: "caller_value cfg nc = Some (get_case_insensitive cfg nc PNone)"
            by (auto simp: get_case_insensitive_caller_value split: option.splits)
          from True first Some show ?thesis
            unfolding unfold Let_def cfg_def[symmetric] spec
            by (cases "get_row_insensitive d table_name nc (get_case_insensitive cfg nc PNone)")
               (simp_all add: cv split: option.split sum.split)
        next
          case False
          have gci: "nc \<noteq> [] \<Longrightarrow> \<not> truthy (get_case_insensitive cfg nc PNone)"
            using False by simp
          show ?thesis
          proof (cases "nc = []")
            case True
            with first Some show ?thesis
              unfolding unfold Let_def cfg_def[symmetric] spec
              by (cases "get_columns d table_name") simp_all
          next
            case nonempty: False
            then have nt: "\<not> truthy (get_case_insensitive cfg nc PNone)" by (rule gci)
            show ?thesis
            proof (cases "caller_value cfg nc")
              case None
              with first Some nonempty nt show ?thesis
                unfolding unfold Let_def cfg_def[symmetric] spec
                by (cases "get_columns d table_name") simp_all
            next
              case (Some nm)
              with nt have "\<not> truthy nm" by (simp add: get_case_insensitive_caller_value)
              with first \<open>name_column = Some nc\<close> Some nonempty nt show ?thesis
                unfolding unfold Let_def cfg_def[symmetric] spec
                by (cases "get_columns d table_name") simp_all
            qed
          qed
        qed
      qed
    qed
  qed
qed

text \<open>
  C1 (as amended). Let \<open>fill_config\<close> return the record \<open>r\<close>, and let \<open>(f, v)\<close> be a field
  of \<open>r\<close> with its value. If the caller's configuration defines \<open>f\<close> (up to case; the first
  such key counts), \<open>v\<close> is the caller's value, a \<open>pathlib.Path\<close> replaced by its text.
  Otherwise, if a persisted row matched (by identifier, or by the fallback name column),
  \<open>v\<close> is the value that row has for \<open>f\<close>; and if none matched, \<open>v\<close> is \<open>None\<close>.
\<close>

theorem fill_config_precedence:
  assumes "fill_config d table_name id_column config ident name_column = Inr r"
    and "(f, v) \<in> set r"
  shows "(\<forall>c. caller_value (config_or_empty config) f = Some c \<longrightarrow> v = path_to_str c) \<and>
         (caller_value (config_or_empty config) f = None \<longrightarrow>
            (\<forall>p. spec_matched_row d table_name id_column (config_or_empty config) ident name_column
                    = Inr (Some p) \<longrightarrow>
                 (\<exists>pv. (f, pv) \<in> set p \<and> v = path_to_str pv)) \<and>
            (spec_matched_row d table_name id_column (config_or_empty config) ident name_column
               = Inr None \<longrightarrow> v = PNone))"
proof (cases "spec_matched_row d table_name id_column (config_or_empty config) ident name_column")
  case (Inl e)
  with assms(1) show ?thesis by (simp add: fill_config_alt)
next
  case (Inr m)
  show ?thesis
  proof (cases m)
    case (Some p)
    with Inr assms(1) have "r = overlay (config_or_empty config) p"
      by (simp add: fill_config_alt)
    with assms(2) obtain pv where "(f, pv) \<in> set p"
      and "v = path_to_str (case caller_value (config_or_empty config) f of Some c \<Rightarrow> c | None \<Rightarrow> pv)"
      by (auto dest: overlay_member)
    with Inr Some show ?thesis by auto
  next
    case None
    with Inr assms(1) obtain columns where "r = overlay (config_or_empty config) (blank_row columns)"
      by (auto simp: fill_config_alt split: sum.splits)
    with assms(2) obtain pv where "(f, pv) \<in> set (blank_row columns)"
      and "v = path_to_str (case caller_value (config_or_empty config) f of Some c \<Rightarrow> c | None \<Rightarrow> pv)"
      by (auto dest: overlay_member)
    moreover from this(1) have "pv = PNone" by (rule blank_row_values)
    ultimately show ?thesis using Inr None
      by (cases "caller_value (config_or_empty config) f") (simp_all add: path_to_str_def)
  qed
qed

theorem fill_config_precedence_witness:
  "fill_config resource_db ''Resources'' ''ResourceID'' (Some [(''path'', PStr ''qwer'')])
     (PStr ''BOGUS3'') None =
     Inr [(''ResourceID'', PStr ''bogus3''), (''Name'', PStr ''project folder''),
          (''Path'', PStr ''qwer''), (''Parent'', PStr ''bogus2'')] \<and>
   caller_value (config_or_empty (Some [(''path'', PStr ''qwer'')])) ''Path'' = Some (PStr ''qwer'') \<and>
   caller_value (config_or_empty (Some [(''path'', PStr ''qwer'')])) ''Name'' = None \<and>
   spec_matched_row resource_db ''Resources'' ''ResourceID''
     (config_or_empty (Some [(''path'', PStr ''qwer'')])) (PStr ''BOGUS3'') None =
     Inr (Some [(''ResourceID'', PStr ''bogus3''), (''Name'', PStr ''project folder''),
                (''Path'', PStr ''asdf''), (''Parent'', PStr ''bogus2'')]) \<and>
   PStr ''qwer'' = path_to_str (PStr ''qwer'') \<and>
   (\<exists>pv. (''Name'', pv) \<in> set [(''ResourceID'', PStr ''bogus3''), (''Name'', PStr ''project folder''),
                (''Path'', PStr ''asdf''), (''Parent'', PStr ''bogus2'')] \<and>
         PStr ''project folder'' = path_to_str pv)"
proof -
  let ?cfg = "Some [(''path'', PStr ''qwer'')]"
  let ?r = "[(''ResourceID'', PStr ''bogus3''), (''Name'', PStr ''project folder''),
          (''Path'', PStr ''qwer''), (''Parent'', PStr ''bogus2'')]"
  let ?p = "[(''ResourceID'', PStr ''bogus3''), (''Name'', PStr ''project folder''),
                (''Path'', PStr ''asdf''), (''Parent'', PStr ''bogus2'')]"
  have run: "fill_config resource_db ''Resources'' ''ResourceID'' ?cfg (PStr ''BOGUS3'') None = Inr ?r"
    by code_simp
  have cv1: "caller_value (config_or_empty ?cfg) ''Path'' = Some (PStr ''qwer'')"
    by code_simp
  have cv2: "caller_value (config_or_empty ?cfg) ''Name'' = None"
    by code_simp
  have m: "spec_matched_row resource_db ''Resources'' ''ResourceID'' (config_or_empty ?cfg)
      (PStr ''BOGUS3'') None = Inr (Some ?p)"
    by code_simp
  have mem1: "(''Path'', PStr ''qwer'') \<in> set ?r" by simp
  have mem2: "(''Name'', PStr ''project folder'') \<in> set ?r" by simp
  from fill_config_precedence[OF run mem1] cv1
  have a: "PStr ''qwer'' = path_to_str (PStr ''qwer'')" by blast
  from fill_config_precedence[OF run mem2] cv2 m
  have b: "\<exists>pv. (''Name'', pv) \<in> set ?p \<and> PStr ''project folder'' = path_to_str pv" by blast
  from run cv1 cv2 m a b show ?thesis by blast
qed

text \<open>
  The claim as it was stated fails for a \<open>pathlib.Path\<close>: the configuration defines
  \<open>Path\<close> as a path object, and the resolved record holds a string, which is no path
  object.
\<close>

theorem fill_config_path_counterexample:
  "caller_value (config_or_empty (Some [(''Path'', PPath ''X:/GIS'')])) ''Path'' = Some (PPath ''X:/GIS'') \<and>
   fill_config resource_db ''Resources'' ''ResourceID'' (Some [(''Path'', PPath ''X:/GIS'')]) PNone None =
     Inr [(''ResourceID'', PNone), (''Name'', PNone), (''Path'', PStr ''X:/GIS''), (''Parent'', PNone)] \<and>
   PStr ''X:/GIS'' \<noteq> PPath ''X:/GIS''"
  by code_simp

section \<open>Statements, strings and rows: basic facts\<close>

lemma bind_ret [simp]: "bind (ret x) f = f x"
  by (rule ext) (simp add: bind_def ret_def)

lemma bind_raise [simp]: "bind (raise e) f = raise e"
  by (rule ext) (simp add: bind_def raise_def)

lemma bind_Inr: "m s = (Inr x, s') \<Longrightarrow> bind m f s = f x s'"
  by (simp add: bind_def)

lemma bind_Inl: "m s = (Inl e, s') \<Longrightarrow> bind m f s = (Inl e, s')"
  by (simp add: bind_def)

lemma digit_not_quote: "n < 10 \<Longrightarrow> digit_char n \<noteq> sq"
proof -
  assume "n < 10"
  then have "n \<in> {0, 1, 2, 3, 4, 5, 6, 7, 8, 9}" by auto
  then show ?thesis by (auto simp: digit_char_def sq_def)
qed

lemma str_nat_no_quote: "sq \<notin> set (str_nat n)"
proof (induction n rule: str_nat.induct)
  case (1 n)
  show ?case
  proof (cases "n < 10")
    case True
    then show ?thesis using digit_not_quote[of n] by (subst str_nat.simps) auto
  next
    case False
    have "n mod 10 < 10" by simp
    from digit_not_quote[OF this] False "1.IH" show ?thesis
      by (subst str_nat.simps) auto
  qed
qed

lemma replace_quotes_no_quote: "sq \<notin> set (replace_quotes m)"
  by (auto simp: replace_quotes_def sq_def dq_def)

lemma pad2_no_quote: "sq \<notin> set (pad2 n)"
  using str_nat_no_quote[of n] by (auto simp: pad2_def sq_def)

lemma pad4_no_quote: "sq \<notin> set (pad4 n)"
  using str_nat_no_quote[of n] by (auto simp: pad4_def sq_def)

lemma time_string_of_instant_no_quote: "sq \<notin> set (time_string_of_instant us)"
proof -
  have lit: "sq \<notin> set ''-''" "sq \<notin> set '' ''" "sq \<notin> set '':''"
    by (simp_all add: sq_def)
  show ?thesis
    unfolding time_string_of_instant_def Let_def
    by (simp add: pad2_no_quote pad4_no_quote lit split: prod.split) (simp add: sq_def)
qed

lemma time_string_of_duration_no_quote: "sq \<notin> set (time_string_of_duration us)"
  unfolding time_string_of_duration_def Let_def
  using str_nat_no_quote pad2_no_quote
  by (auto simp: sq_def)

lemma uuid_text_no_quote: "sq \<notin> set (uuid_text n)"
  using str_nat_no_quote[of n] by (auto simp: uuid_text_def sq_def)

lemma map_of_fold_update:
  "map_of (fold (\<lambda>(c, v) r. AList.update c v r) pairs r) k =
     (case map_of (rev pairs) k of Some v \<Rightarrow> Some v | None \<Rightarrow> map_of r k)"
proof (induction pairs arbitrary: r)
  case Nil
  then show ?case by simp
next
  case (Cons p ps)
  obtain c v where p: "p = (c, v)" by (cases p)
  show ?case
    by (simp add: p Cons.IH AList.update_conv' map_add_def split: option.splits)
qed

section \<open>Properties of the activity ledger\<close>

text \<open>
  What \<open>end_activity\<close> does to the database when the table of activities has the
  columns it sets, the activity has started, and the identifier and the message can be
  written as SQL: the rows of the activity get the four values, a \<open>None\<close> left out, and
  nothing else changes.
\<close>

lemma end_activity_rows:
  assumes tbl: "map_of (db s) ''Activity'' = Some df"
      and cs: "{''ActivityID'', ''EndTime'', ''Duration'', ''Succeeded'', ''Message''} \<subseteq> set (cols df)"
      and st: "start_time t = Some started"
      and aid: "sql_literal_ok activity_id"
      and msg: "message = PNone \<or> (\<exists>m. message = PStr m)"
  shows "\<exists>s'. end_activity t activity_id succeeded message s = (Inr (), s') \<and>
           logged s' = logged s \<and> calls s' = calls s \<and>
           (\<forall>tn. tn \<noteq> ''Activity'' \<longrightarrow> map_of (db s') tn = map_of (db s) tn) \<and>
           map_of (db s') ''Activity'' =
             Some (df\<lparr>rows := map (\<lambda>r. if map_of r ''ActivityID'' = Some activity_id
                      then fold (\<lambda>(col, val) r. AList.update col val r)
                             (filter (\<lambda>(col, val). val \<noteq> PNone)
                               [(''EndTime'', PStr (time_string_of_instant (now s + elapse s (reads s)))),
                                (''Duration'', PStr (time_string_of_duration (now s + elapse s (reads s) - started))),
                                (''Succeeded'', PBool succeeded),
                                (''Message'', case message of PStr m \<Rightarrow> PStr (replace_quotes m) | _ \<Rightarrow> PNone)]) r
                      else r) (rows df)\<rparr>)"
proof -
  define message' where "message' = (case message of PStr m \<Rightarrow> PStr (replace_quotes m) | _ \<Rightarrow> PNone)"
  have m1: "(case message of
             PNone \<Rightarrow> ret PNone
           | PStr m \<Rightarrow> ret (PStr (replace_quotes m))
           | PPath p \<Rightarrow> raise (TypeError ''replace() takes 2 positional arguments'')
           | _ \<Rightarrow> raise (AttributeError ''replace'')) = ret message'"
    using msg by (auto simp: message'_def)
  have ok: "message' = PNone \<or> sql_literal_ok message'"
    using msg by (auto simp: message'_def sql_literal_ok_def replace_quotes_no_quote)
  define s1 where "s1 = s\<lparr>now := now s + elapse s (reads s), reads := Suc (reads s)\<rparr>"
  have g: "get_now s = (Inr (now s + elapse s (reads s)), s1)"
    by (simp add: get_now_def Let_def s1_def)
  have db1: "db s1 = db s" by (simp add: s1_def)
  define vals where "vals = [(''EndTime'', PStr (time_string_of_instant (now s + elapse s (reads s)))),
                                (''Duration'', PStr (time_string_of_duration (now s + elapse s (reads s) - started))),
                                (''Succeeded'', PBool succeeded),
                                (''Message'', message')]"
  have lits: "list_all (\<lambda>(col, val). sql_literal_ok val) (filter (\<lambda>(col, val). val \<noteq> PNone) vals)"
    using ok by (auto simp: vals_def sql_literal_ok_def time_string_of_instant_no_quote
        time_string_of_duration_no_quote)
  have ne: "filter (\<lambda>(col, val). val \<noteq> PNone) vals \<noteq> []"
    by (simp add: vals_def)
  have sub: "set (''ActivityID'' # map fst (filter (\<lambda>(col, val). val \<noteq> PNone) vals)) \<subseteq> set (cols df)"
    using cs by (auto simp: vals_def)
  have upd: "ClothoDB_update (db s) ''Activity'' ''ActivityID'' activity_id vals =
      Inr (AList.update ''Activity''
             (df\<lparr>rows := map (\<lambda>r. if map_of r ''ActivityID'' = Some activity_id
                      then fold (\<lambda>(col, val) r. AList.update col val r)
                             (filter (\<lambda>(col, val). val \<noteq> PNone) vals) r
                      else r) (rows df)\<rparr>) (db s))"
    unfolding ClothoDB_update_def Let_def using tbl lits ne sub aid by simp
  have "end_activity t activity_id succeeded message s =
        writing (\<lambda>d. ClothoDB_update d ''Activity'' ''ActivityID'' activity_id vals) s1"
    unfolding end_activity_def m1 by (simp add: bind_def g st vals_def)
  also have "\<dots> = (Inr (), s1\<lparr>db := AList.update ''Activity''
             (df\<lparr>rows := map (\<lambda>r. if map_of r ''ActivityID'' = Some activity_id
                      then fold (\<lambda>(col, val) r. AList.update col val r)
                             (filter (\<lambda>(col, val). val \<noteq> PNone) vals) r
                      else r) (rows df)\<rparr>) (db s)\<rparr>)"
    by (simp add: writing_def db1 upd)
  finally show ?thesis
    by (simp add: s1_def AList.update_conv' vals_def message'_def)
qed

text \<open>
  C10. When a run fails, the \<open>except\<close> branch stores the exception text with every single
  quote replaced by a double quote: this is the \<open>Message\<close> of every row of the activity
  afterwards. A message that is \<open>None\<close> leaves the \<open>Message\<close> of every row as it was.
  (The table of activities has the columns that are set, the activity has started, and
  its identifier can be written as SQL, as one made by \<open>uuid1\<close> can.)
\<close>

theorem failed_run_message:
  assumes tbl: "map_of (db s) ''Activity'' = Some df"
      and cs: "{''ActivityID'', ''EndTime'', ''Duration'', ''Succeeded'', ''Message''} \<subseteq> set (cols df)"
      and st: "start_time t = Some started"
      and aid: "sql_literal_ok activity_id"
  shows "(\<exists>s'. run_failed t activity_id e s = (Inr (None, t), s') \<and>
            length (table_rows (db s') ''Activity'') = length (rows df) \<and>
            (\<forall>i < length (rows df).
               map_of (rows df ! i) ''ActivityID'' = Some activity_id \<longrightarrow>
               map_of (table_rows (db s') ''Activity'' ! i) ''Message'' = Some (PStr (replace_quotes e)))) \<and>
         length (replace_quotes e) = length e \<and>
         (\<forall>i < length e. replace_quotes e ! i = (if e ! i = sq then dq else e ! i)) \<and>
         (\<exists>s'. end_activity t activity_id succeeded PNone s = (Inr (), s') \<and>
            map (\<lambda>r. map_of r ''Message'') (table_rows (db s') ''Activity'') =
            map (\<lambda>r. map_of r ''Message'') (rows df))"
proof -
  define msg where "msg = ''Tool '' @ py_str (Tool_name t) @ '' failed. '' @ e"
  define s0 where "s0 = s\<lparr>logged := logged s @ [(ERROR, msg)]\<rparr>"
  have tbl0: "map_of (db s0) ''Activity'' = Some df" using tbl by (simp add: s0_def)
  from end_activity_rows[OF tbl0 cs st aid, of "PStr e" False]
  obtain s' where e1: "end_activity t activity_id False (PStr e) s0 = (Inr (), s')"
    and r1: "map_of (db s') ''Activity'' =
             Some (df\<lparr>rows := map (\<lambda>r. if map_of r ''ActivityID'' = Some activity_id
                      then fold (\<lambda>(col, val) r. AList.update col val r)
                             (filter (\<lambda>(col, val). val \<noteq> PNone)
                               [(''EndTime'', PStr (time_string_of_instant (now s0 + elapse s0 (reads s0)))),
                                (''Duration'', PStr (time_string_of_duration (now s0 + elapse s0 (reads s0) - started))),
                                (''Succeeded'', PBool False),
                                (''Message'', case PStr e of PStr m \<Rightarrow> PStr (replace_quotes m) | _ \<Rightarrow> PNone)]) r
                      else r) (rows df)\<rparr>)"
    by auto
  have lg: "logging ERROR msg s = (Inr (), s0)"
    by (simp add: logging_def s0_def)
  have run: "run_failed t activity_id e s = (Inr (None, t), s')"
    unfolding run_failed_def msg_def[symmetric]
    by (simp add: bind_def lg e1 ret_def)
  have part1: "length (table_rows (db s') ''Activity'') = length (rows df) \<and>
            (\<forall>i < length (rows df).
               map_of (rows df ! i) ''ActivityID'' = Some activity_id \<longrightarrow>
               map_of (table_rows (db s') ''Activity'' ! i) ''Message'' = Some (PStr (replace_quotes e)))"
    by (simp add: table_rows_def r1 AList.update_conv')
  from end_activity_rows[OF tbl cs st aid, of PNone succeeded]
  obtain s'' where e2: "end_activity t activity_id succeeded PNone s = (Inr (), s'')"
    and r2: "map_of (db s'') ''Activity'' =
             Some (df\<lparr>rows := map (\<lambda>r. if map_of r ''ActivityID'' = Some activity_id
                      then fold (\<lambda>(col, val) r. AList.update col val r)
                             (filter (\<lambda>(col, val). val \<noteq> PNone)
                               [(''EndTime'', PStr (time_string_of_instant (now s + elapse s (reads s)))),
                                (''Duration'', PStr (time_string_of_duration (now s + elapse s (reads s) - started))),
                                (''Succeeded'', PBool succeeded),
                                (''Message'', case PNone of PStr m \<Rightarrow> PStr (replace_quotes m) | _ \<Rightarrow> PNone)]) r
                      else r) (rows df)\<rparr>)"
    by auto
  have part2: "map (\<lambda>r. map_of r ''Message'') (table_rows (db s'') ''Activity'') =
            map (\<lambda>r. map_of r ''Message'') (rows df)"
    by (simp add: table_rows_def r2 AList.update_conv' comp_def)
  have part3: "length (replace_quotes e) = length e \<and>
         (\<forall>i < length e. replace_quotes e ! i = (if e ! i = sq then dq else e ! i))"
    by (simp add: replace_quotes_def)
  from run part1 part3 e2 part2 show ?thesis by blast
qed

theorem failed_run_message_witness:
  "map_of (db (world_of activity_db)) ''Activity'' = Some (the (map_of activity_db ''Activity'')) \<and>
   start_time started_tool = Some 0 \<and>
   sql_literal_ok (PStr ''uuid-3'') \<and>
   map_of (rows (the (map_of activity_db ''Activity'')) ! 0) ''ActivityID'' = Some (PStr ''uuid-3'') \<and>
   fst (run_failed started_tool (PStr ''uuid-3'') failing_message (world_of activity_db)) =
     Inr (None, started_tool) \<and>
   map_of (table_rows (db (snd (run_failed started_tool (PStr ''uuid-3'') failing_message
             (world_of activity_db)))) ''Activity'' ! 0) ''Message'' =
     Some (PStr (''can'' @ dq # ''t open file''))"
proof -
  let ?df = "the (map_of activity_db ''Activity'')"
  have h1: "map_of (db (world_of activity_db)) ''Activity'' = Some ?df" by code_simp
  have h2: "{''ActivityID'', ''EndTime'', ''Duration'', ''Succeeded'', ''Message''} \<subseteq> set (cols ?df)"
    by code_simp
  have h3: "start_time started_tool = Some 0" by code_simp
  have h4: "sql_literal_ok (PStr ''uuid-3'')" by code_simp
  have h5: "map_of (rows ?df ! 0) ''ActivityID'' = Some (PStr ''uuid-3'')" by code_simp
  have h6: "0 < length (rows ?df)" by code_simp
  have h7: "replace_quotes failing_message = ''can'' @ dq # ''t open file''" by code_simp
  from failed_run_message[OF h1 h2 h3 h4, of failing_message]
  obtain s' where run: "run_failed started_tool (PStr ''uuid-3'') failing_message (world_of activity_db)
        = (Inr (None, started_tool), s')"
    and msg: "\<forall>i < length (rows ?df).
               map_of (rows ?df ! i) ''ActivityID'' = Some (PStr ''uuid-3'') \<longrightarrow>
               map_of (table_rows (db s') ''Activity'' ! i) ''Message'' =
                 Some (PStr (replace_quotes failing_message))"
    by blast
  from msg h5 h6 have "map_of (table_rows (db s') ''Activity'' ! 0) ''Message'' =
                 Some (PStr (replace_quotes failing_message))" by blast
  with run h1 h3 h4 h5 h7 show ?thesis by simp
qed

section \<open>Properties of writing a row\<close>

lemma bind_InrE:
  assumes "bind m f s = (Inr y, s')"
  obtains x s1 where "m s = (Inr x, s1)" and "f x s1 = (Inr y, s')"
  using assms by (auto simp: bind_def split: prod.splits sum.splits)

lemma map_of_pad_row:
  "map_of (pad_row columns r) c = (if c \<in> set columns then Some (dict_get r c) else None)"
  by (induction columns) (auto simp: pad_row_def)

lemma dict_get_pad_row:
  "c \<in> set columns \<Longrightarrow> dict_get (pad_row columns r) c = dict_get r c"
  by (simp add: dict_get_def map_of_pad_row)

lemma pad_row_idem: "pad_row columns (pad_row columns r) = pad_row columns r"
  by (simp add: pad_row_def dict_get_pad_row[unfolded pad_row_def])

lemma keys_new_columns: "fst ` set row \<subseteq> set (new_columns tpl table_name row)"
  by (auto simp: new_columns_def split: option.splits)

lemma template_new_columns:
  "map_of tpl table_name = Some template \<Longrightarrow> set template \<subseteq> set (new_columns tpl table_name row)"
  by (auto simp: new_columns_def)

lemma new_columns_result:
  "set (new_columns tpl table_name row) \<subseteq> set (result_columns tpl d table_name row)"
  by (auto simp: result_columns_def)

lemma key_in_result_columns:
  assumes "map_of row id_col = Some idv"
  shows "id_col \<in> set (result_columns tpl d table_name row)"
proof -
  have "id_col \<in> fst ` set row"
    using assms by (simp add: domI dom_map_of_conv_image_fst[symmetric])
  then show ?thesis using keys_new_columns new_columns_result by blast
qed

lemma pad_row_new_columns:
  "pad_row columns (pad_row (new_columns tpl table_name row) row) = pad_row columns row"
proof -
  have same: "dict_get (pad_row (new_columns tpl table_name row) row) c = dict_get row c" for c
  proof (cases "c \<in> set (new_columns tpl table_name row)")
    case True
    then show ?thesis by (rule dict_get_pad_row)
  next
    case False
    with keys_new_columns have "c \<notin> fst ` set row" by blast
    then have "map_of row c = None" by (simp add: map_of_eq_None_iff)
    with False show ?thesis by (simp add: dict_get_def map_of_pad_row)
  qed
  show ?thesis by (simp add: pad_row_def[of columns] same)
qed

text \<open>What \<open>set_row\<close> does when it returns, and when it returns.\<close>

lemma set_row_result:
  assumes ok: "set_row tpl d table_name row id_col = Inr d'"
      and idv: "map_of row id_col = Some idv"
  shows "d' = AList.update table_name (written_table tpl d table_name row id_col idv) d"
proof -
  define df where "df = (case map_of d table_name of None \<Rightarrow> \<lparr>cols = [], rows = []\<rparr>
     | Some tb \<Rightarrow> tb\<lparr>rows := filter (\<lambda>r. pd_ne (dict_get r id_col) idv) (rows tb)\<rparr>)"
  have got: "SQLiteDB_get d table_name None = Inr (map_of d table_name)"
    by (simp add: SQLiteDB_get_def split: option.splits)
  have first: "(case map_of d table_name of
               None \<Rightarrow> Inr \<lparr>cols = [], rows = []\<rparr>
             | Some df \<Rightarrow>
                 if id_col \<notin> set (cols df) then Inl (KeyError id_col)
                 else
                   (case map_of row id_col of
                      None \<Rightarrow> Inl (KeyError id_col)
                    | Some idv \<Rightarrow>
                        Inr (df\<lparr>rows := filter (\<lambda>r. pd_ne (dict_get r id_col) idv) (rows df)\<rparr>))) = Inr df"
    using ok idv unfolding set_row_def df_def got
    by (auto split: option.splits if_splits simp: bind_e_def)
  have cols_df: "cols df = table_cols d table_name"
    and rows_df: "rows df = filter (\<lambda>r. pd_ne (dict_get r id_col) idv) (table_rows d table_name)"
    by (auto simp: df_def table_cols_def table_rows_def split: option.splits)
  have second: "d' = import_df (concat_frames df
      \<lparr>cols = new_columns tpl table_name row, rows = [pad_row (new_columns tpl table_name row) row]\<rparr>) table_name d"
    using ok unfolding set_row_def got
    by (auto simp: first new_columns_def Let_def split: option.splits if_splits)
  show ?thesis
    by (simp add: second import_df_def concat_frames_def Let_def result_columns_def
        rows_df cols_df pad_row_new_columns written_table_def)
qed

lemma set_row_storable:
  assumes "set_row tpl d table_name row id_col = Inr d'"
  shows "list_all (\<lambda>(k, v). storable v) row"
  using assms unfolding set_row_def
  by (auto simp: bind_e_def split: sum.splits if_splits)

lemma set_row_returns:
  assumes tb: "map_of d table_name = Some tb"
      and col: "id_col \<in> set (cols tb)"
      and idv: "map_of row id_col = Some idv"
      and st: "list_all (\<lambda>(k, v). storable v) row"
      and tp: "\<And>template. map_of tpl table_name = Some template \<Longrightarrow> set template \<subseteq> set (cols tb)"
  shows "set_row tpl d table_name row id_col =
           Inr (AList.update table_name (written_table tpl d table_name row id_col idv) d)"
proof -
  have "\<exists>d'. set_row tpl d table_name row id_col = Inr d'"
    unfolding set_row_def SQLiteDB_get_def using tb col idv tp st
    by (cases "map_of tpl table_name") (simp_all add: Let_def)
  then obtain d' where ok: "set_row tpl d table_name row id_col = Inr d'" ..
  from set_row_result[OF ok idv] ok show ?thesis by simp
qed

text \<open>The table \<open>set_row\<close> leaves depends on the table it finds only.\<close>

lemma written_table_cong:
  "map_of d table_name = map_of e table_name \<Longrightarrow>
   written_table tpl d table_name row id_col idv = written_table tpl e table_name row id_col idv"
  by (simp add: written_table_def result_columns_def table_cols_def table_rows_def)

text \<open>Written a second time, the row replaces itself.\<close>

lemma written_table_again:
  assumes m1: "map_of d1 table_name = Some (written_table tpl d table_name row id_col idv)"
      and idv: "map_of row id_col = Some idv"
      and nn: "idv \<noteq> PNone"
  shows "written_table tpl d1 table_name row id_col idv = written_table tpl d table_name row id_col idv"
proof -
  let ?cs = "result_columns tpl d table_name row"
  let ?old = "filter (\<lambda>r. pd_ne (dict_get r id_col) idv) (table_rows d table_name)"
  have col: "id_col \<in> set ?cs" by (rule key_in_result_columns[OF idv])
  have cols1: "table_cols d1 table_name = ?cs" by (simp add: table_cols_def m1 written_table_def)
  have rows1: "table_rows d1 table_name = map (pad_row ?cs) (?old @ [row])"
    by (simp add: table_rows_def m1 written_table_def)
  have cs2: "result_columns tpl d1 table_name row = ?cs"
    using new_columns_result[of tpl table_name row d]
    by (auto simp: result_columns_def[of tpl d1] cols1 filter_empty_conv)
  have keep: "filter (\<lambda>r. pd_ne (dict_get r id_col) idv) (map (pad_row ?cs) ?old) = map (pad_row ?cs) ?old"
    using col by (auto simp: filter_id_conv dict_get_pad_row)
  have drop: "\<not> pd_ne (dict_get (pad_row ?cs row) id_col) idv"
    using col idv nn by (simp add: map_of_pad_row dict_get_def pd_ne_def)
  show ?thesis
    unfolding written_table_def[of tpl d1] cs2 rows1
    by (simp add: keep drop pad_row_idem o_def written_table_def)
qed

lemma rows_with_written_table:
  assumes m1: "map_of d1 table_name = Some (written_table tpl d table_name row id_col idv)"
      and idv: "map_of row id_col = Some idv"
      and nn: "idv \<noteq> PNone"
  shows "rows_with d1 table_name id_col idv = [pad_row (result_columns tpl d table_name row) row]"
proof -
  let ?cs = "result_columns tpl d table_name row"
  have col: "id_col \<in> set ?cs" by (rule key_in_result_columns[OF idv])
  have old: "filter (\<lambda>r. map_of r id_col = Some idv)
               (map (pad_row ?cs) (filter (\<lambda>r. pd_ne (dict_get r id_col) idv) old)) = []" for old
    using col nn by (auto simp: filter_empty_conv map_of_pad_row pd_ne_def)
  have new: "map_of (pad_row ?cs row) id_col = Some idv"
    using col idv by (simp add: map_of_pad_row dict_get_def)
  show ?thesis
    by (simp add: rows_with_def table_rows_def m1 written_table_def old new)
qed

text \<open>The same for the statement: a second write of the row succeeds and changes nothing.\<close>

lemma set_row_s_result:
  assumes "set_row_s table_name row id_col s = (Inr u, s')"
      and "map_of row id_col = Some idv"
  shows "s' = s\<lparr>db := AList.update table_name
                        (written_table (templates s) (db s) table_name row id_col idv) (db s)\<rparr>"
  using assms set_row_result[of "templates s" "db s" table_name row id_col _ idv]
  by (auto simp: set_row_s_def writing_def split: sum.splits)

lemma set_row_s_storable:
  assumes "set_row_s table_name row id_col s = (Inr u, s')"
  shows "list_all (\<lambda>(k, v). storable v) row"
  using assms set_row_storable[of "templates s" "db s" table_name row id_col]
  by (auto simp: set_row_s_def writing_def split: sum.splits)

lemma set_row_s_again:
  assumes m1: "map_of (db s) table_name =
                 Some (written_table (templates s) d table_name row id_col idv)"
      and idv: "map_of row id_col = Some idv"
      and nn: "idv \<noteq> PNone"
      and st: "list_all (\<lambda>(k, v). storable v) row"
  shows "set_row_s table_name row id_col s = (Inr (), s)"
proof -
  let ?tb = "written_table (templates s) d table_name row id_col idv"
  have col: "id_col \<in> set (cols ?tb)"
    using key_in_result_columns[OF idv] by (simp add: written_table_def)
  have tp: "set template \<subseteq> set (cols ?tb)" if "map_of (templates s) table_name = Some template"
    for template
    using template_new_columns[OF that] new_columns_result
    by (fastforce simp: written_table_def)
  have "set_row (templates s) (db s) table_name row id_col =
          Inr (AList.update table_name
                 (written_table (templates s) (db s) table_name row id_col idv) (db s))"
    by (rule set_row_returns[OF m1 col idv st tp])
  also have "written_table (templates s) (db s) table_name row id_col idv = ?tb"
    by (rule written_table_again[OF m1 idv nn])
  also have "AList.update table_name ?tb (db s) = db s"
    by (rule AList.update_triv[OF m1])
  finally show ?thesis by (simp add: set_row_s_def writing_def)
qed

lemma truthy_dict_get:
  "truthy (dict_get r c) \<Longrightarrow> map_of r c = Some (dict_get r c) \<and> dict_get r c \<noteq> PNone"
  by (cases "map_of r c") (auto simp: dict_get_def)

text \<open>The three kinds of entity, committed with an identifier.\<close>

lemma Resource_commit_twice:
  assumes id: "truthy (dict_get (res_config r) ''ResourceID'')"
      and one: "Resource_commit r s = (Inr r1, s1)"
  shows "r1 = r \<and> Resource_commit r1 s1 = (Inr r1, s1) \<and>
         rows_with (db s1) ''Resources'' ''ResourceID'' (dict_get (res_config r) ''ResourceID'') =
           [pad_row (table_cols (db s1) ''Resources'') (res_config r)]"
proof -
  let ?idv = "dict_get (res_config r) ''ResourceID''"
  note k = truthy_dict_get[OF id]
  from one id have w: "set_row_s ''Resources'' (res_config r) ''ResourceID'' s = (Inr (), s1)" and r1: "r1 = r"
    by (auto simp: Resource_commit_def bind_def ret_def split: prod.splits sum.splits)
  have s1: "s1 = s\<lparr>db := AList.update ''Resources''
                (written_table (templates s) (db s) ''Resources'' (res_config r) ''ResourceID'' ?idv) (db s)\<rparr>"
    using set_row_s_result[OF w] k by simp
  have m1: "map_of (db s1) ''Resources'' =
              Some (written_table (templates s1) (db s) ''Resources'' (res_config r) ''ResourceID'' ?idv)"
    by (simp add: s1 AList.update_conv')
  have again: "set_row_s ''Resources'' (res_config r) ''ResourceID'' s1 = (Inr (), s1)"
    using set_row_s_again[OF m1 _ _ set_row_s_storable[OF w]] k by simp
  have two: "Resource_commit r s1 = (Inr r, s1)"
    using id by (simp add: Resource_commit_def bind_def again ret_def)
  have "rows_with (db s1) ''Resources'' ''ResourceID'' ?idv =
          [pad_row (result_columns (templates s1) (db s) ''Resources'' (res_config r)) (res_config r)]"
    using rows_with_written_table[OF m1] k by simp
  moreover have "table_cols (db s1) ''Resources'' =
      result_columns (templates s1) (db s) ''Resources'' (res_config r)"
    by (simp add: table_cols_def m1 written_table_def)
  ultimately show ?thesis using r1 two by simp
qed

lemma ToolParam_commit_twice:
  assumes id: "truthy (ToolParam_id p)"
      and one: "ToolParam_commit p tool_id s = (Inr p1, s1)"
  shows "p1 = p\<lparr>param_config := AList.update ''ToolID'' tool_id (param_config p)\<rparr> \<and>
         ToolParam_commit p1 tool_id s1 = (Inr p1, s1) \<and>
         rows_with (db s1) ''ToolParams'' ''ParamID'' (ToolParam_id p) =
           [pad_row (table_cols (db s1) ''ToolParams'')
              (AList.update ''Name'' (param_name p) (param_config p1))]"
proof -
  let ?idv = "ToolParam_id p"
  let ?cfg = "AList.update ''ToolID'' tool_id (param_config p)"
  let ?row = "AList.update ''Name'' (param_name p) ?cfg"
  have g: "dict_get ?cfg ''ParamID'' = ?idv"
    by (simp add: dict_get_def ToolParam_id_def AList.update_conv')
  have k: "map_of ?row ''ParamID'' = Some ?idv" "?idv \<noteq> PNone"
    using truthy_dict_get[OF id[unfolded ToolParam_id_def]]
    by (simp_all add: AList.update_conv' ToolParam_id_def)
  from one id have w: "set_row_s ''ToolParams'' ?row ''ParamID'' s = (Inr (), s1)"
    and p1: "p1 = p\<lparr>param_config := ?cfg\<rparr>"
    by (auto simp: ToolParam_commit_def Let_def g bind_def ret_def split: prod.splits sum.splits)
  have s1: "s1 = s\<lparr>db := AList.update ''ToolParams''
                (written_table (templates s) (db s) ''ToolParams'' ?row ''ParamID'' ?idv) (db s)\<rparr>"
    using set_row_s_result[OF w k(1)] .
  have m1: "map_of (db s1) ''ToolParams'' =
              Some (written_table (templates s1) (db s) ''ToolParams'' ?row ''ParamID'' ?idv)"
    by (simp add: s1 AList.update_conv')
  have again: "set_row_s ''ToolParams'' ?row ''ParamID'' s1 = (Inr (), s1)"
    by (rule set_row_s_again[OF m1 k set_row_s_storable[OF w]])
  have two: "ToolParam_commit (p\<lparr>param_config := ?cfg\<rparr>) tool_id s1 = (Inr (p\<lparr>param_config := ?cfg\<rparr>), s1)"
    using id by (simp add: ToolParam_commit_def Let_def g bind_def again ret_def)
  have "rows_with (db s1) ''ToolParams'' ''ParamID'' ?idv =
          [pad_row (result_columns (templates s1) (db s) ''ToolParams'' ?row) ?row]"
    by (rule rows_with_written_table[OF m1 k])
  moreover have "table_cols (db s1) ''ToolParams'' =
      result_columns (templates s1) (db s) ''ToolParams'' ?row"
    by (simp add: table_cols_def m1 written_table_def)
  ultimately show ?thesis using p1 two by simp
qed


text \<open>Which tables a statement writes to.\<close>

lemma set_row_other_tables:
  assumes "set_row tpl d table_name row id_col = Inr d'"
  shows "tn \<noteq> table_name \<Longrightarrow> map_of d' tn = map_of d tn"
  using assms unfolding set_row_def
  by (auto simp: bind_e_def import_df_def AList.update_conv' Let_def split: option.splits if_splits sum.splits)

lemma writes_only_ret [intro!]: "writes_only W (ret x)"
  by (simp add: writes_only_def ret_def)

lemma writes_only_raise [intro!]: "writes_only W (raise e)"
  by (simp add: writes_only_def raise_def)

lemma writes_only_bind [intro!]:
  assumes "writes_only W m" and "\<And>x. writes_only W (f x)"
  shows "writes_only W (bind m f)"
  unfolding writes_only_def
proof (intro allI)
  fix s
  obtain r s' where ms: "m s = (r, s')" by (cases "m s")
  have a: "templates s' = templates s \<and> funcs s' = funcs s \<and>
          (\<forall>tn. tn \<notin> W \<longrightarrow> map_of (db s') tn = map_of (db s) tn)"
    using assms(1)[unfolded writes_only_def, rule_format, of s] ms by simp
  show "templates (snd (bind m f s)) = templates s \<and> funcs (snd (bind m f s)) = funcs s \<and>
          (\<forall>tn. tn \<notin> W \<longrightarrow> map_of (db (snd (bind m f s))) tn = map_of (db s) tn)"
  proof (cases r)
    case (Inl e)
    then show ?thesis using a ms by (simp add: bind_def)
  next
    case (Inr x)
    have b: "templates (snd (f x s')) = templates s' \<and> funcs (snd (f x s')) = funcs s' \<and>
          (\<forall>tn. tn \<notin> W \<longrightarrow> map_of (db (snd (f x s'))) tn = map_of (db s') tn)"
      using assms(2)[unfolded writes_only_def, rule_format, of x s'] by simp
    from Inr a b ms show ?thesis by (simp add: bind_def)
  qed
qed

lemma writes_only_same:
  assumes "\<And>s. snd (m s) = s"
  shows "writes_only W m"
  by (simp add: writes_only_def assms)

lemma writes_only_uuid1 [intro!]: "writes_only W uuid1"
  by (simp add: writes_only_def uuid1_def)

lemma writes_only_logging [intro!]: "writes_only W (logging lvl msg)"
  by (simp add: writes_only_def logging_def)

lemma writes_only_get_now [intro!]: "writes_only W get_now"
  by (simp add: writes_only_def get_now_def Let_def)

lemma writes_only_set_row_s:
  assumes "table_name \<in> W"
  shows "writes_only W (set_row_s table_name row id_col)"
  unfolding writes_only_def
proof (intro allI)
  fix s
  show "templates (snd (set_row_s table_name row id_col s)) = templates s \<and>
        funcs (snd (set_row_s table_name row id_col s)) = funcs s \<and>
        (\<forall>tn. tn \<notin> W \<longrightarrow> map_of (db (snd (set_row_s table_name row id_col s))) tn = map_of (db s) tn)"
  proof (cases "set_row (templates s) (db s) table_name row id_col")
    case (Inl e)
    then show ?thesis by (simp add: set_row_s_def writing_def)
  next
    case (Inr d')
    have "map_of d' tn = map_of (db s) tn" if "tn \<notin> W" for tn
      using set_row_other_tables[OF Inr, of tn] that assms by auto
    with Inr show ?thesis by (simp add: set_row_s_def writing_def)
  qed
qed

lemma writes_onlyD:
  assumes "writes_only W m" and "m s = (r, s')"
  shows "templates s' = templates s" and "funcs s' = funcs s"
    and "tn \<notin> W \<Longrightarrow> map_of (db s') tn = map_of (db s) tn"
  using assms(1)[unfolded writes_only_def, rule_format, of s] assms(2) by simp_all

lemma writes_only_mono: "writes_only V m \<Longrightarrow> V \<subseteq> W \<Longrightarrow> writes_only W m"
  unfolding writes_only_def by blast

lemma writes_only_ToolParam_commit:
  "''ToolParams'' \<in> W \<Longrightarrow> writes_only W (ToolParam_commit p tool_id)"
  unfolding ToolParam_commit_def Let_def
  by (intro writes_only_bind writes_only_set_row_s writes_only_ret) auto

lemma writes_only_commit_params:
  "''ToolParams'' \<in> W \<Longrightarrow> writes_only W (commit_params ps tool_id)"
  by (induction ps tool_id rule: commit_params.induct)
     (auto intro!: writes_only_ToolParam_commit)

lemma writes_only_commit_predecessors:
  "''ToolPredecessors'' \<in> W \<Longrightarrow> writes_only W (commit_predecessors ids db_preds tool_id)"
  by (induction ids db_preds tool_id rule: commit_predecessors.induct)
     (auto intro!: writes_only_set_row_s)

lemma writes_only_commit_outputs:
  "''ToolOutputs'' \<in> W \<Longrightarrow> writes_only W (commit_outputs names output_rows tool_id)"
  by (induction names output_rows tool_id rule: commit_outputs.induct)
     (auto intro!: writes_only_set_row_s split: option.splits list.splits)

lemma writes_only_column [intro!]: "writes_only W (column df c)"
  by (rule writes_only_same) (simp add: column_def ret_def raise_def split: option.splits)

lemma reading_same: "snd (reading f s) = s \<or> (\<exists>msg. snd (reading f s) = log_lines msg s)"
  by (auto simp: reading_def split: sum.splits error.splits)

lemma writes_only_reading [intro!]: "writes_only W (reading f)"
  unfolding writes_only_def
proof (intro allI)
  fix s
  from reading_same[of f s]
  show "templates (snd (reading f s)) = templates s \<and> funcs (snd (reading f s)) = funcs s \<and>
        (\<forall>tn. tn \<notin> W \<longrightarrow> map_of (db (snd (reading f s))) tn = map_of (db s) tn)"
    by (auto simp: log_lines_def)
qed

lemma Tool_commit_rest:
  "writes_only {''ToolParams'', ''ToolPredecessors'', ''ToolOutputs''}
     (bind (commit_params (params t) (Tool_id t)) (\<lambda>ps.
     let t = t\<lparr>params := ps\<rparr> in
     bind (bind (reading (\<lambda>d. ClothoDB_get d ''ToolPredecessors'' (tool_query t)))
               (\<lambda>pred_rows. column pred_rows ''PredecessorID''))
       (\<lambda>db_preds.
     bind (commit_predecessors (map snd (predecessors t)) db_preds (Tool_id t)) (\<lambda>x.
     bind (reading (\<lambda>d. ClothoDB_get d ''ToolOutputs'' (tool_query t))) (\<lambda>output_rows.
     bind (commit_outputs (enumerate 0 (outputs t)) output_rows (Tool_id t)) (\<lambda>x.
     ret t))))))"
  unfolding Let_def
  by (intro writes_only_bind writes_only_commit_params writes_only_commit_predecessors
        writes_only_commit_outputs writes_only_column writes_only_ret writes_only_reading)
     simp_all

lemma Tool_commit_Inr:
  assumes id: "truthy (Tool_id t)"
      and one: "Tool_commit t s = (Inr t1, s1)"
  shows "tool_config t1 = tool_config t \<and>
         templates s1 = templates s \<and>
         map_of (db s1) ''Tools'' =
           Some (written_table (templates s) (db s) ''Tools'' (tool_config t) ''ToolID'' (Tool_id t))"
proof -
  note k = truthy_dict_get[OF id[unfolded Tool_id_def]]
  have "Tool_commit t = bind (set_row_s ''Tools'' (tool_config t) ''ToolID'') (\<lambda>x.
     bind (commit_params (params t) (Tool_id t)) (\<lambda>ps.
     let t = t\<lparr>params := ps\<rparr> in
     bind (bind (reading (\<lambda>d. ClothoDB_get d ''ToolPredecessors'' (tool_query t)))
               (\<lambda>pred_rows. column pred_rows ''PredecessorID''))
       (\<lambda>db_preds.
     bind (commit_predecessors (map snd (predecessors t)) db_preds (Tool_id t)) (\<lambda>x.
     bind (reading (\<lambda>d. ClothoDB_get d ''ToolOutputs'' (tool_query t))) (\<lambda>output_rows.
     bind (commit_outputs (enumerate 0 (outputs t)) output_rows (Tool_id t)) (\<lambda>x.
     ret t))))))"
    unfolding Tool_commit_def by (simp only: id not_True_eq_False if_False bind_ret)
  with one obtain x s0 where w: "set_row_s ''Tools'' (tool_config t) ''ToolID'' s = (Inr x, s0)"
    and rest: "bind (commit_params (params t) (Tool_id t)) (\<lambda>ps.
     let t = t\<lparr>params := ps\<rparr> in
     bind (bind (reading (\<lambda>d. ClothoDB_get d ''ToolPredecessors'' (tool_query t)))
               (\<lambda>pred_rows. column pred_rows ''PredecessorID''))
       (\<lambda>db_preds.
     bind (commit_predecessors (map snd (predecessors t)) db_preds (Tool_id t)) (\<lambda>x.
     bind (reading (\<lambda>d. ClothoDB_get d ''ToolOutputs'' (tool_query t))) (\<lambda>output_rows.
     bind (commit_outputs (enumerate 0 (outputs t)) output_rows (Tool_id t)) (\<lambda>x.
     ret t))))) s0 = (Inr t1, s1)"
    by (elim bind_InrE[rotated]) simp
  have cfg: "tool_config t1 = tool_config t"
    using rest unfolding Let_def
    apply (elim bind_InrE)
    apply (auto simp: ret_def)
    done
  have s0: "s0 = s\<lparr>db := AList.update ''Tools''
                (written_table (templates s) (db s) ''Tools'' (tool_config t) ''ToolID'' (Tool_id t)) (db s)\<rparr>"
    using set_row_s_result[OF w] k by (simp add: Tool_id_def)
  have "templates s1 = templates s0" and "map_of (db s1) ''Tools'' = map_of (db s0) ''Tools''"
    using writes_onlyD[OF Tool_commit_rest rest] by simp_all
  with cfg show ?thesis by (simp add: s0 AList.update_conv')
qed

lemma Tool_commit_twice:
  assumes id: "truthy (Tool_id t)"
      and one: "Tool_commit t s = (Inr t1, s1)"
      and two: "Tool_commit t1 s1 = (Inr t2, s2)"
  shows "map_of (db s2) ''Tools'' = map_of (db s1) ''Tools'' \<and>
         rows_with (db s2) ''Tools'' ''ToolID'' (Tool_id t) =
           [pad_row (table_cols (db s2) ''Tools'') (tool_config t)]"
proof -
  let ?tb = "written_table (templates s) (db s) ''Tools'' (tool_config t) ''ToolID'' (Tool_id t)"
  note k = truthy_dict_get[OF id[unfolded Tool_id_def], folded Tool_id_def]
  from Tool_commit_Inr[OF id one]
  have c1: "tool_config t1 = tool_config t" and t1: "templates s1 = templates s"
    and m1: "map_of (db s1) ''Tools'' = Some ?tb" by simp_all
  have id1: "truthy (Tool_id t1)" "Tool_id t1 = Tool_id t" using id c1 by (simp_all add: Tool_id_def)
  from Tool_commit_Inr[OF id1(1) two]
  have m2: "map_of (db s2) ''Tools'' =
      Some (written_table (templates s) (db s1) ''Tools'' (tool_config t) ''ToolID'' (Tool_id t))"
    by (simp add: c1 t1 id1(2))
  have same: "written_table (templates s) (db s1) ''Tools'' (tool_config t) ''ToolID'' (Tool_id t) = ?tb"
    using written_table_again[OF m1] k by (simp add: Tool_id_def)
  have m2': "map_of (db s2) ''Tools'' = Some ?tb" by (simp add: m2 same)
  have "rows_with (db s2) ''Tools'' ''ToolID'' (Tool_id t) =
          [pad_row (result_columns (templates s) (db s) ''Tools'' (tool_config t)) (tool_config t)]"
    using rows_with_written_table[OF m2'] k by (simp add: Tool_id_def)
  moreover have "table_cols (db s2) ''Tools'' =
      result_columns (templates s) (db s) ''Tools'' (tool_config t)"
    by (simp add: table_cols_def m2' written_table_def)
  ultimately show ?thesis using m1 m2' by simp
qed



end
